theory Spec2Isabelle
  imports Main "HOL-Library.Word"
begin

section \<open>Data model of db\_explorer.go\<close>

text \<open>
  A Go \<open>any\<close> as it occurs in a field map: the dynamic types that
  \<open>json.Decoder.Decode\<close> stores into a \<open>map[string]any\<close> (float64, string, nil,
  bool, []any, map[string]any) and the \<open>int\<close> that \<open>getDefaultValue\<close> returns.
  A float64 is its 64 bits; the validator never looks inside it.
\<close>

datatype any =
    Any_float64 "64 word"
  | Any_string string
  | Any_nil
  | Any_bool bool
  | Any_int int
  | Any_slice "any list"
  | Any_map "(string \<times> any) list"

text \<open>\<open>map[string]any\<close>: the submitted form and the sanitized form.\<close>

type_synonym form = "string \<rightharpoonup> any"

text \<open>
  What the code reads of a \<open>*sql.ColumnType\<close>: \<open>Name()\<close>, \<open>DatabaseTypeName()\<close>
  and the pair \<open>(nullable, ok)\<close> returned by \<open>Nullable()\<close>.
\<close>

record ColumnType =
  Name :: string
  DatabaseTypeName :: string
  Nullable :: "bool \<times> bool"

record ValidationOptions =
  IgnorePk :: bool
  IgnoreNotProvidedField :: bool
  WithDefaultValues :: bool

text \<open>
  The Go \<open>error\<close> values of the program: a \<open>ValidationError{Field}\<close>, or an error
  made by \<open>fmt.Errorf\<close> or handed over by the database driver, which is its text.
\<close>

datatype error =
    ValidationError string
  | ErrorString string

fun Error :: "error \<Rightarrow> string" where
  "Error (ValidationError field) = ''field '' @ field @ '' have invalid type''"
| "Error (ErrorString s) = s"

section \<open>The field validator\<close>

definition isNumberType :: "string \<Rightarrow> bool" where
  "isNumberType columnType = (columnType \<in> set [''NUMBER''])"

definition isStringType :: "string \<Rightarrow> bool" where
  "isStringType columnType = (columnType \<in> set [''VARCHAR'', ''TEXT'', ''NVARCHAR''])"

definition getDefaultValue :: "string \<Rightarrow> any" where
  "getDefaultValue dbTypeName =
     (if isNumberType dbTypeName then Any_int 0
      else if isStringType dbTypeName then Any_string ''''
      else Any_bool False)"

text \<open>
  The type switch of \<open>processForm\<close> on a submitted value: \<open>True\<close> where the switch
  returns the validation error. A bool, a slice and a map match no case of the switch.
\<close>

fun typeSwitchFails :: "any \<Rightarrow> ColumnType \<Rightarrow> bool" where
  "typeSwitchFails (Any_float64 x) c = (\<not> isNumberType (DatabaseTypeName c))"
| "typeSwitchFails (Any_string s) c = (\<not> isStringType (DatabaseTypeName c))"
| "typeSwitchFails Any_nil c = (\<not> fst (Nullable c))"
| "typeSwitchFails v c = False"

text \<open>
  The loop \<open>for _, c := range columns\<close> of \<open>processForm\<close>, with \<open>newForm\<close> as the
  accumulator. A \<open>return newForm, err\<close> ends the recursion, a \<open>continue\<close> is the
  recursive call.
\<close>

fun processForm_loop ::
  "form \<Rightarrow> ColumnType list \<Rightarrow> string \<Rightarrow> ValidationOptions \<Rightarrow> form \<Rightarrow> form \<times> error option"
where
  "processForm_loop form [] primaryKey opts newForm = (newForm, None)"
| "processForm_loop form (c # columns) primaryKey opts newForm =
     (let name = Name c;
          nullable = fst (Nullable c);
          ok = snd (Nullable c)
      in
        if \<not> ok then (newForm, Some (ErrorString ''db driver does not support nullable''))
        else if name = primaryKey then
          (if form name \<noteq> None \<and> \<not> IgnorePk opts
           then (newForm, Some (ValidationError name))
           else processForm_loop form columns primaryKey opts newForm)
        else
          (case form name of
             Some v \<Rightarrow>
               if typeSwitchFails v c then (newForm, Some (ValidationError name))
               else processForm_loop form columns primaryKey opts (newForm(name \<mapsto> v))
           | None \<Rightarrow>
               if IgnoreNotProvidedField opts
               then processForm_loop form columns primaryKey opts newForm
               else if \<not> nullable then
                 (if \<not> WithDefaultValues opts
                  then (newForm, Some (ValidationError name))
                  else processForm_loop form columns primaryKey opts
                         (newForm(name \<mapsto> getDefaultValue (DatabaseTypeName c))))
               else processForm_loop form columns primaryKey opts (newForm(name \<mapsto> Any_nil))))"

definition processForm ::
  "form \<Rightarrow> ColumnType list \<Rightarrow> string \<Rightarrow> ValidationOptions \<Rightarrow> form \<times> error option"
where
  "processForm form columns primaryKey opts =
     processForm_loop form columns primaryKey opts Map.empty"

text \<open>
  The loop body read column by column: the error at which the loop returns, if any,
  and the value it stores under the column's name, if any. Both are derived from
  \<open>processForm_loop\<close> below (\<open>processForm_loop_Cons\<close>) and serve the proofs.
\<close>

definition columnError :: "form \<Rightarrow> string \<Rightarrow> ValidationOptions \<Rightarrow> ColumnType \<Rightarrow> error option" where
  "columnError form pk opts c =
     (if \<not> snd (Nullable c) then Some (ErrorString ''db driver does not support nullable'')
      else if Name c = pk then
        (if form (Name c) \<noteq> None \<and> \<not> IgnorePk opts then Some (ValidationError (Name c)) else None)
      else
        (case form (Name c) of
           Some v \<Rightarrow> if typeSwitchFails v c then Some (ValidationError (Name c)) else None
         | None \<Rightarrow>
             if \<not> IgnoreNotProvidedField opts \<and> \<not> fst (Nullable c) \<and> \<not> WithDefaultValues opts
             then Some (ValidationError (Name c)) else None))"

definition columnValue :: "form \<Rightarrow> string \<Rightarrow> ValidationOptions \<Rightarrow> ColumnType \<Rightarrow> any option" where
  "columnValue form pk opts c =
     (if Name c = pk then None
      else
        (case form (Name c) of
           Some v \<Rightarrow> Some v
         | None \<Rightarrow>
             if IgnoreNotProvidedField opts then None
             else if fst (Nullable c) then Some Any_nil
             else Some (getDefaultValue (DatabaseTypeName c))))"

definition store :: "form \<Rightarrow> string \<Rightarrow> any option \<Rightarrow> form" where
  "store nf n w = (case w of None \<Rightarrow> nf | Some v \<Rightarrow> nf(n \<mapsto> v))"

subsection \<open>The validator on a store of map objects\<close>

text \<open>
  A Go map is a reference: \<open>form\<close> and \<open>newForm\<close> are addresses of map objects.
  The store is the list of the map objects allocated so far, an address is an index
  into it. \<open>make\<close> allocates the next address with an empty map, \<open>m[k]\<close> reads the
  object at \<open>m\<close> and \<open>m[k] = v\<close> replaces it by the updated map. An address outside
  the store reads as the nil map, which has no entries.
\<close>

type_synonym heap = "form list"

definition deref :: "heap \<Rightarrow> nat \<Rightarrow> form" where
  "deref h a = (if a < length h then h ! a else Map.empty)"

definition assign :: "heap \<Rightarrow> nat \<Rightarrow> string \<Rightarrow> any \<Rightarrow> heap" where
  "assign h a k v = h[a := (deref h a)(k \<mapsto> v)]"

definition make_map :: "heap \<Rightarrow> heap \<times> nat" where
  "make_map h = (h @ [Map.empty], length h)"

fun processForm_loop_heap ::
  "heap \<Rightarrow> nat \<Rightarrow> ColumnType list \<Rightarrow> string \<Rightarrow> ValidationOptions \<Rightarrow> nat \<Rightarrow> heap \<times> error option"
where
  "processForm_loop_heap h form [] primaryKey opts newForm = (h, None)"
| "processForm_loop_heap h form (c # columns) primaryKey opts newForm =
     (let name = Name c;
          nullable = fst (Nullable c);
          ok = snd (Nullable c)
      in
        if \<not> ok then (h, Some (ErrorString ''db driver does not support nullable''))
        else if name = primaryKey then
          (if deref h form name \<noteq> None \<and> \<not> IgnorePk opts
           then (h, Some (ValidationError name))
           else processForm_loop_heap h form columns primaryKey opts newForm)
        else
          (case deref h form name of
             Some v \<Rightarrow>
               if typeSwitchFails v c then (h, Some (ValidationError name))
               else processForm_loop_heap (assign h newForm name v) form columns primaryKey opts newForm
           | None \<Rightarrow>
               if IgnoreNotProvidedField opts
               then processForm_loop_heap h form columns primaryKey opts newForm
               else if \<not> nullable then
                 (if \<not> WithDefaultValues opts
                  then (h, Some (ValidationError name))
                  else processForm_loop_heap
                         (assign h newForm name (getDefaultValue (DatabaseTypeName c)))
                         form columns primaryKey opts newForm)
               else processForm_loop_heap (assign h newForm name Any_nil)
                      form columns primaryKey opts newForm))"

text \<open>The result is the store after the call, the address returned and the error.\<close>

definition processForm_heap ::
  "heap \<Rightarrow> nat \<Rightarrow> ColumnType list \<Rightarrow> string \<Rightarrow> ValidationOptions \<Rightarrow> heap \<times> nat \<times> error option"
where
  "processForm_heap h form columns primaryKey opts =
     (case make_map h of
        (h1, newForm) \<Rightarrow>
          (case processForm_loop_heap h1 form columns primaryKey opts newForm of
             (h2, err) \<Rightarrow> (h2, newForm, err)))"

section \<open>The router\<close>

text \<open>
  The patterns that \<open>initRoutes\<close> registers are sequences of single-character items,
  each optionally under \<open>*\<close>: the literal \<open>/\<close>, the class \<open>\w\<close> (the ASCII letters,
  digits and the underscore) and the class \<open>[0-9]\<close>. \<open>Handle\<close> compiles
  \<open>"^" + pattern + "$"\<close>, so \<open>MatchString\<close> holds when the whole path is matched.
\<close>

datatype atom = Lit char | WordClass | DigitClass

datatype item = One atom | Star atom

datatype Regexp = Anchored "item list"

definition isDigit :: "char \<Rightarrow> bool" where
  "isDigit c = (c \<in> set ''0123456789'')"

definition isWord :: "char \<Rightarrow> bool" where
  "isWord c =
     (c \<in> set ''0123456789ABCDEFGHIJKLMNOPQRSTUVWXYZ_abcdefghijklmnopqrstuvwxyz'')"

fun atomMatches :: "atom \<Rightarrow> char \<Rightarrow> bool" where
  "atomMatches (Lit l) c = (c = l)"
| "atomMatches WordClass c = isWord c"
| "atomMatches DigitClass c = isDigit c"

fun matches :: "item list \<Rightarrow> string \<Rightarrow> bool" where
  "matches [] s = (s = [])"
| "matches (One a # p) [] = False"
| "matches (One a # p) (c # s) = (atomMatches a c \<and> matches p s)"
| "matches (Star a # p) [] = matches p []"
| "matches (Star a # p) (c # s) = (matches p (c # s) \<or> (atomMatches a c \<and> matches (Star a # p) s))"

fun MatchString :: "Regexp \<Rightarrow> string \<Rightarrow> bool" where
  "MatchString (Anchored p) s = matches p s"

text \<open>The strings a pattern denotes, for stating what \<open>matches\<close> decides.\<close>

fun lang :: "item list \<Rightarrow> string set" where
  "lang [] = {[]}"
| "lang (One a # p) = {c # s | c s. atomMatches a c \<and> s \<in> lang p}"
| "lang (Star a # p) = {t @ s | t s. (\<forall>c \<in> set t. atomMatches a c) \<and> s \<in> lang p}"

record 'h Route =
  Method :: string
  Pattern :: Regexp
  Handler :: 'h

definition NewRouter :: "'h Route list" where
  "NewRouter = []"

definition Handle :: "'h Route list \<Rightarrow> string \<Rightarrow> item list \<Rightarrow> 'h \<Rightarrow> 'h Route list" where
  "Handle routes method pattern handler =
     routes @ [\<lparr>Method = method, Pattern = Anchored pattern, Handler = handler\<rparr>]"

text \<open>The handlers of the explorer, by name.\<close>

datatype handler =
    HandlerGetTableNames
  | HandlerGetTableItems
  | HandlerGetTableItem
  | HandlerCreateItem
  | HandlerDeleteItem
  | HandlerUpdateItem

definition slash :: item where
  "slash = One (Lit CHR ''/'')"

definition initRoutes :: "handler Route list" where
  "initRoutes =
     Handle (Handle (Handle (Handle (Handle (Handle NewRouter
       ''GET'' [slash] HandlerGetTableNames)
       ''GET'' [slash, Star WordClass] HandlerGetTableItems)
       ''GET'' [slash, Star WordClass, slash, Star DigitClass] HandlerGetTableItem)
       ''PUT'' [slash, Star WordClass, slash] HandlerCreateItem)
       ''DELETE'' [slash, Star WordClass, slash, Star DigitClass] HandlerDeleteItem)
       ''POST'' [slash, Star WordClass, slash, Star DigitClass] HandlerUpdateItem"

text \<open>
  \<open>ServeHTTP\<close> either calls a route's handler on the request, and then does nothing
  else, or writes the status 404.
\<close>

datatype 'h served = Calls 'h | StatusNotFound

fun ServeHTTP_loop :: "'h Route list \<Rightarrow> string \<Rightarrow> string \<Rightarrow> 'h served" where
  "ServeHTTP_loop [] method path = StatusNotFound"
| "ServeHTTP_loop (route # routes) method path =
     (if Method route \<noteq> method then ServeHTTP_loop routes method path
      else if MatchString (Pattern route) path then Calls (Handler route)
      else ServeHTTP_loop routes method path)"

text \<open>The test of the loop of \<open>ServeHTTP\<close> on one route.\<close>

definition routeMatches :: "'h Route \<Rightarrow> string \<Rightarrow> string \<Rightarrow> bool" where
  "routeMatches route method path = (Method route = method \<and> MatchString (Pattern route) path)"

text \<open>What the program reads of a \<open>*http.Request\<close>.\<close>

record Request =
  r_Method :: string
  r_URL_Path :: string
  r_URL_Query :: "string \<rightharpoonup> string list"
  r_Body :: "string + form"

text \<open>
  \<open>r_URL_Query\<close> is \<open>r.URL.Query()\<close>, a \<open>url.Values\<close>. \<open>r_Body\<close> is what
  \<open>json.NewDecoder(r.Body).Decode(&form)\<close> gives: the text of the decoder's error,
  or the decoded map.
\<close>

definition ServeHTTP :: "'h Route list \<Rightarrow> Request \<Rightarrow> 'h served" where
  "ServeHTTP routes r = ServeHTTP_loop routes (r_Method r) (r_URL_Path r)"

section \<open>The query-parameter decoder\<close>

record Pagination =
  Offset :: int
  Limit :: int

text \<open>
  \<open>strconv.Atoi\<close> of the Go standard library, where \<open>int\<close> has 64 bits: an optional
  sign, then one or more decimal digits, and the value within the range of \<open>int\<close>;
  anything else is an error (\<open>None\<close>).
\<close>

definition digitValue :: "char \<Rightarrow> nat option" where
  "digitValue ch =
     (let n = (of_char ch :: nat)
      in if of_char CHR ''0'' \<le> n \<and> n \<le> of_char CHR ''9''
         then Some (n - of_char CHR ''0'') else None)"

fun parseDigits :: "string \<Rightarrow> nat \<Rightarrow> nat option" where
  "parseDigits [] n = Some n"
| "parseDigits (c # s) n =
     (case digitValue c of None \<Rightarrow> None | Some d \<Rightarrow> parseDigits s (n * 10 + d))"

definition inIntRange :: "int \<Rightarrow> bool" where
  "inIntRange v = (- (2 ^ 63) \<le> v \<and> v < 2 ^ 63)"

definition Atoi :: "string \<Rightarrow> int option" where
  "Atoi s =
     (let neg = (s \<noteq> [] \<and> hd s = CHR ''-'');
          digits = (if s \<noteq> [] \<and> (hd s = CHR ''-'' \<or> hd s = CHR ''+'') then tl s else s)
      in
        if digits = [] then None
        else
          (case parseDigits digits 0 of
             None \<Rightarrow> None
           | Some n \<Rightarrow>
               (let v = (if neg then - int n else int n)
                in if inIntRange v then Some v else None)))"

text \<open>\<open>query.Has(key)\<close> and \<open>query.Get(key)\<close> of \<open>url.Values\<close>.\<close>

definition Has :: "(string \<rightharpoonup> string list) \<Rightarrow> string \<Rightarrow> bool" where
  "Has query key = (query key \<noteq> None)"

definition Get :: "(string \<rightharpoonup> string list) \<Rightarrow> string \<Rightarrow> string" where
  "Get query key = (case query key of None \<Rightarrow> [] | Some [] \<Rightarrow> [] | Some (v # vs) \<Rightarrow> v)"

definition getQueryIntValue :: "(string \<rightharpoonup> string list) \<Rightarrow> string \<Rightarrow> int \<Rightarrow> int" where
  "getQueryIntValue query key defaultValue =
     (if \<not> Has query key then defaultValue
      else
        (case Atoi (Get query key) of
           None \<Rightarrow> defaultValue
         | Some intValue \<Rightarrow> intValue))"

definition getPagination :: "(string \<rightharpoonup> string list) \<Rightarrow> Pagination" where
  "getPagination query =
     \<lparr>Offset = getQueryIntValue query ''offset'' 0,
      Limit = getQueryIntValue query ''limit'' 5\<rparr>"

section \<open>The database and the construction of the explorer\<close>

text \<open>
  The database engine is outside the program. What the program asks of it, as the
  answers it gives:
  \<^item> \<open>show_tables\<close>: \<open>Query("SHOW TABLES")\<close>, an error or the rows, each row being
    what \<open>rows.Scan(&name)\<close> gives on it;
  \<^item> \<open>select_limit0 t\<close>: \<open>Query("SELECT * FROM t LIMIT 0")\<close>, an error or the rows,
    of which the program takes \<open>rows.ColumnTypes()\<close>, again an error or the columns;
  \<^item> \<open>primary_key_rows t\<close>: the query of \<open>getPrimaryKey\<close> on the key column usage
    of \<open>t\<close>, an error or the rows, each what \<open>rows.Scan(&name)\<close> gives;
  \<^item> \<open>exec_insert t form\<close>: \<open>Exec\<close> of the INSERT statement that \<open>createItem\<close>
    builds from the entries of \<open>form\<close>, an error or a result, of which
    \<open>LastInsertId()\<close> is an error or the id;
  \<^item> \<open>exec_update t form pk v\<close>: \<open>Exec\<close> of the UPDATE statement that
    \<open>updateItem\<close> builds, an error or a result, of which \<open>RowsAffected()\<close> is an
    error or the count;
  \<^item> \<open>query_row t pk v\<close>: \<open>QueryRow\<close> of \<open>SELECT * FROM t WHERE pk = ?\<close> with
    the argument \<open>v\<close>, as \<open>getItem\<close> builds it: \<open>row.Err()\<close>, or the row.
  The statements list the entries of the map in the order in which Go ranges over
  it, which is not fixed; column and argument are permuted together, so the
  statement is a function of the map.
\<close>

text \<open>
  The reply to \<open>QueryRow\<close>, once \<open>row.Err()\<close> is nil. The program calls
  \<open>row.Scan(values...)\<close> on it with one destination per column, a
  \<open>*sql.NullString\<close> or a \<open>*any\<close>. \<open>Scan_err dests\<close> is the error of that call for
  the given destinations (\<open>True\<close> for a \<open>*sql.NullString\<close>), the error of an empty
  result among them; \<open>scan_NullString i\<close> is what the call leaves in a
  \<open>*sql.NullString\<close> at position \<open>i\<close>, its \<open>String\<close> and its \<open>Valid\<close>;
  \<open>scan_any i\<close> is what it leaves in a \<open>*any\<close> at position \<open>i\<close>.
\<close>

record sqlRow =
  Scan_err :: "bool list \<Rightarrow> error option"
  scan_NullString :: "nat \<Rightarrow> string \<times> bool"
  scan_any :: "nat \<Rightarrow> any"

record sqlDB =
  show_tables :: "error + (error + string) list"
  select_limit0 :: "string \<Rightarrow> error + (error + ColumnType list)"
  primary_key_rows :: "string \<Rightarrow> error + (error + string) list"
  exec_insert :: "string \<Rightarrow> form \<Rightarrow> error + (error + int)"
  exec_update :: "string \<Rightarrow> form \<Rightarrow> string \<Rightarrow> string \<Rightarrow> error + (error + int)"
  query_row :: "string \<Rightarrow> string \<Rightarrow> string \<Rightarrow> error + sqlRow"

record DbExplorer =
  DB :: sqlDB
  TableNames :: "string list"
  TableColumns :: "string \<rightharpoonup> ColumnType list"
  router :: "handler Route list"

text \<open>A call returns a value or panics.\<close>

datatype 'a outcome = Returns 'a | Panics

fun getTableNames_loop :: "(error + string) list \<Rightarrow> string list \<Rightarrow> string list \<times> error option" where
  "getTableNames_loop [] tableNames = (tableNames, None)"
| "getTableNames_loop (Inl err # rows) tableNames = (tableNames, Some err)"
| "getTableNames_loop (Inr name # rows) tableNames = getTableNames_loop rows (tableNames @ [name])"

definition getTableNames :: "sqlDB \<Rightarrow> string list \<times> error option" where
  "getTableNames db =
     (case show_tables db of
        Inl err \<Rightarrow> ([], None)
      | Inr rows \<Rightarrow> getTableNames_loop rows [])"

definition getColumnTypes :: "sqlDB \<Rightarrow> string \<Rightarrow> ColumnType list \<times> error option" where
  "getColumnTypes db table =
     (case select_limit0 db table of
        Inl err \<Rightarrow> ([], Some err)
      | Inr (Inl err) \<Rightarrow> ([], Some err)
      | Inr (Inr columnTypes) \<Rightarrow> (columnTypes, None))"

fun initTableColumns_loop ::
  "sqlDB \<Rightarrow> string list \<Rightarrow> (string \<rightharpoonup> ColumnType list) \<Rightarrow> (string \<rightharpoonup> ColumnType list) outcome"
where
  "initTableColumns_loop db [] tableColumns = Returns tableColumns"
| "initTableColumns_loop db (table # tables) tableColumns =
     (case getColumnTypes db table of
        (columns, Some err) \<Rightarrow> Panics
      | (columns, None) \<Rightarrow> initTableColumns_loop db tables (tableColumns(table \<mapsto> columns)))"

definition NewDbExplorer :: "sqlDB \<Rightarrow> (DbExplorer \<times> error option) outcome" where
  "NewDbExplorer db =
     (let explorer = \<lparr>DB = db, TableNames = [], TableColumns = Map.empty, router = NewRouter\<rparr>
      in
        (case getTableNames db of
           (tableNames, Some err) \<Rightarrow> Returns (explorer, Some err)
         | (tableNames, None) \<Rightarrow>
             (case initTableColumns_loop db tableNames (TableColumns explorer) of
                Panics \<Rightarrow> Panics
              | Returns tableColumns \<Rightarrow>
                  Returns
                    (explorer\<lparr>TableNames := tableNames, TableColumns := tableColumns,
                       router := initRoutes\<rparr>, None))))"

section \<open>The handlers of create, update and get\<close>

text \<open>
  What a handler writes: the status (200 when \<open>WriteHeader\<close> is not called) and
  the body. \<open>ErrorJSON msg\<close> is \<open>NewErrorResponse(err)\<close>, the JSON object
  \<open>{"error": msg}\<close>; \<open>PlainText msg\<close> is the body written by \<open>http.Error\<close>;
  \<open>CreatedJSON pk id\<close> is \<open>{"response": {pk: id}}\<close> and \<open>UpdatedJSON n\<close> is
  \<open>{"response": {"updated": n}}\<close>. \<open>json.Marshal\<close> does not fail on these values,
  so its error branch is left out. \<open>RecordJSON item\<close> is
  \<open>{"response": {"record": item}}\<close>, the record as \<open>json.Marshal\<close> writes it.
\<close>

datatype body =
    NoBody
  | ErrorJSON string
  | PlainText string
  | CreatedJSON string int
  | UpdatedJSON int
  | RecordJSON form

record Response =
  status :: nat
  body :: body

text \<open>\<open>strings.Split(s, "/")\<close>.\<close>

fun Split :: "string \<Rightarrow> string list" where
  "Split [] = [[]]"
| "Split (c # s) =
     (if c = CHR ''/'' then [] # Split s
      else (case Split s of [] \<Rightarrow> [[c]] | x # xs \<Rightarrow> (c # x) # xs))"

text \<open>Indexing a slice panics when the index is out of range.\<close>

definition index :: "'a list \<Rightarrow> nat \<Rightarrow> 'a outcome" where
  "index xs i = (if i < length xs then Returns (xs ! i) else Panics)"

definition isValidTableName :: "DbExplorer \<Rightarrow> string \<Rightarrow> bool" where
  "isValidTableName exp tableName = (tableName \<in> set (TableNames exp))"

definition getTableName :: "DbExplorer \<Rightarrow> string \<Rightarrow> (error + string) outcome" where
  "getTableName exp url =
     (case index (Split url) 1 of
        Panics \<Rightarrow> Panics
      | Returns tableName \<Rightarrow>
          if \<not> isValidTableName exp tableName then Returns (Inl (ErrorString ''unknown table''))
          else Returns (Inr tableName))"

definition getId :: "string \<Rightarrow> string outcome" where
  "getId url = index (Split url) 2"

definition getColumnTypesFromCache :: "DbExplorer \<Rightarrow> string \<Rightarrow> error + ColumnType list" where
  "getColumnTypesFromCache exp table =
     (case TableColumns exp table of
        None \<Rightarrow> Inl (ErrorString (''table='' @ table @ '' doesnt have cache''))
      | Some columnTypes \<Rightarrow> Inr columnTypes)"

fun getPrimaryKey_loop :: "(error + string) list \<Rightarrow> string \<Rightarrow> error + string" where
  "getPrimaryKey_loop [] name = Inr name"
| "getPrimaryKey_loop (Inl err # rows) name = Inl err"
| "getPrimaryKey_loop (Inr scanned # rows) name = getPrimaryKey_loop rows scanned"

definition getPrimaryKey :: "DbExplorer \<Rightarrow> string \<Rightarrow> error + string" where
  "getPrimaryKey exp table =
     (case primary_key_rows (DB exp) table of
        Inl err \<Rightarrow> Inl err
      | Inr rows \<Rightarrow> getPrimaryKey_loop rows [])"

definition createItem ::
  "DbExplorer \<Rightarrow> string \<Rightarrow> form \<Rightarrow> ColumnType list \<Rightarrow> string \<Rightarrow> error + int"
where
  "createItem exp table form columns primaryKey =
     (case exec_insert (DB exp) table form of
        Inl err \<Rightarrow> Inl err
      | Inr (Inl err) \<Rightarrow> Inl err
      | Inr (Inr lastInsertId) \<Rightarrow> Inr lastInsertId)"

definition updateItem ::
  "DbExplorer \<Rightarrow> string \<Rightarrow> form \<Rightarrow> ColumnType list \<Rightarrow> string \<Rightarrow> string \<Rightarrow> error + int"
where
  "updateItem exp table form columns primaryKey pkValue =
     (case exec_update (DB exp) table form primaryKey pkValue of
        Inl err \<Rightarrow> Inl err
      | Inr (Inl err) \<Rightarrow> Inl err
      | Inr (Inr pk) \<Rightarrow> Inr pk)"

definition createOptions :: ValidationOptions where
  "createOptions = \<lparr>IgnorePk = True, IgnoreNotProvidedField = False, WithDefaultValues = True\<rparr>"

definition updateOptions :: ValidationOptions where
  "updateOptions = \<lparr>IgnorePk = False, IgnoreNotProvidedField = True, WithDefaultValues = False\<rparr>"

definition handlerCreateItem :: "DbExplorer \<Rightarrow> Request \<Rightarrow> Response outcome" where
  "handlerCreateItem exp r =
     (case getTableName exp (r_URL_Path r) of
        Panics \<Rightarrow> Panics
      | Returns (Inl err) \<Rightarrow> Returns \<lparr>status = 404, body = ErrorJSON (Error err)\<rparr>
      | Returns (Inr tableName) \<Rightarrow>
     (case getColumnTypesFromCache exp tableName of
        Inl err \<Rightarrow> Returns \<lparr>status = 500, body = NoBody\<rparr>
      | Inr columns \<Rightarrow>
     (case getPrimaryKey exp tableName of
        Inl err \<Rightarrow> Returns \<lparr>status = 500, body = NoBody\<rparr>
      | Inr primaryKey \<Rightarrow>
     (case r_Body r of
        Inl msg \<Rightarrow> Returns \<lparr>status = 400, body = PlainText msg\<rparr>
      | Inr form \<Rightarrow>
     (case processForm form columns primaryKey createOptions of
        (newForm, Some err) \<Rightarrow> Returns \<lparr>status = 400, body = ErrorJSON (Error err)\<rparr>
      | (newForm, None) \<Rightarrow>
     (case createItem exp tableName newForm columns primaryKey of
        Inl err \<Rightarrow> Returns \<lparr>status = 400, body = NoBody\<rparr>
      | Inr newId \<Rightarrow> Returns \<lparr>status = 200, body = CreatedJSON primaryKey newId\<rparr>))))))"

definition handlerUpdateItem :: "DbExplorer \<Rightarrow> Request \<Rightarrow> Response outcome" where
  "handlerUpdateItem exp r =
     (case getTableName exp (r_URL_Path r) of
        Panics \<Rightarrow> Panics
      | Returns (Inl err) \<Rightarrow> Returns \<lparr>status = 404, body = ErrorJSON (Error err)\<rparr>
      | Returns (Inr tableName) \<Rightarrow>
     (case getColumnTypesFromCache exp tableName of
        Inl err \<Rightarrow> Returns \<lparr>status = 500, body = NoBody\<rparr>
      | Inr columns \<Rightarrow>
     (case getPrimaryKey exp tableName of
        Inl err \<Rightarrow> Returns \<lparr>status = 500, body = NoBody\<rparr>
      | Inr primaryKey \<Rightarrow>
     (case r_Body r of
        Inl msg \<Rightarrow> Returns \<lparr>status = 400, body = PlainText msg\<rparr>
      | Inr form \<Rightarrow>
     (case getId (r_URL_Path r) of
        Panics \<Rightarrow> Panics
      | Returns pkValue \<Rightarrow>
     (case processForm form columns primaryKey updateOptions of
        (newForm, Some err) \<Rightarrow> Returns \<lparr>status = 400, body = ErrorJSON (Error err)\<rparr>
      | (newForm, None) \<Rightarrow>
     (case updateItem exp tableName newForm columns primaryKey pkValue of
        Inl err \<Rightarrow> Returns \<lparr>status = 400, body = NoBody\<rparr>
      | Inr pk \<Rightarrow>
          Returns \<lparr>status = 200, body = UpdatedJSON (if pk > 0 then 1 else 0)\<rparr>)))))))"

text \<open>
  \<open>getItem\<close>: the loop \<open>for i, v := range values\<close> after the scan, with \<open>res\<close> as
  the accumulator. The destination of a string column is a \<open>*sql.NullString\<close>, of
  any other column a \<open>*any\<close>, whose content is what the record shows.
\<close>

fun getItem_loop :: "sqlRow \<Rightarrow> ColumnType list \<Rightarrow> nat \<Rightarrow> form \<Rightarrow> form" where
  "getItem_loop row [] i res = res"
| "getItem_loop row (c # columnTypes) i res =
     (if isStringType (DatabaseTypeName c) then
        (if snd (scan_NullString row i)
         then getItem_loop row columnTypes (Suc i) (res(Name c \<mapsto> Any_string (fst (scan_NullString row i))))
         else getItem_loop row columnTypes (Suc i) (res(Name c \<mapsto> Any_nil)))
      else getItem_loop row columnTypes (Suc i) (res(Name c \<mapsto> scan_any row i)))"

definition getItem :: "DbExplorer \<Rightarrow> string \<Rightarrow> string \<Rightarrow> string \<Rightarrow> form \<times> error option" where
  "getItem exp table pkName pkValue =
     (case query_row (DB exp) table pkName pkValue of
        Inl err \<Rightarrow> (Map.empty, Some err)
      | Inr row \<Rightarrow>
     (case getColumnTypesFromCache exp table of
        Inl err \<Rightarrow> (Map.empty, Some err)
      | Inr columnTypes \<Rightarrow>
     (case Scan_err row (map (\<lambda>c. isStringType (DatabaseTypeName c)) columnTypes) of
        Some err \<Rightarrow> (Map.empty, Some err)
      | None \<Rightarrow> (getItem_loop row columnTypes 0 Map.empty, None))))"

definition handlerGetTableItem :: "DbExplorer \<Rightarrow> Request \<Rightarrow> Response outcome" where
  "handlerGetTableItem exp r =
     (case getTableName exp (r_URL_Path r) of
        Panics \<Rightarrow> Panics
      | Returns (Inl err) \<Rightarrow> Returns \<lparr>status = 404, body = ErrorJSON (Error err)\<rparr>
      | Returns (Inr tableName) \<Rightarrow>
     (case getId (r_URL_Path r) of
        Panics \<Rightarrow> Panics
      | Returns pkValue \<Rightarrow>
     (case getPrimaryKey exp tableName of
        Inl err \<Rightarrow> Returns \<lparr>status = 500, body = NoBody\<rparr>
      | Inr pkName \<Rightarrow>
     (case getItem exp tableName pkName pkValue of
        (item, Some err) \<Rightarrow> Returns \<lparr>status = 404, body = ErrorJSON ''record not found''\<rparr>
      | (item, None) \<Rightarrow> Returns \<lparr>status = 200, body = RecordJSON item\<rparr>))))"

section \<open>Example data\<close>

text \<open>A table \<open>users\<close> with the primary key \<open>id\<close>, and an engine that serves it.\<close>

definition id_column :: ColumnType where
  "id_column = \<lparr>Name = ''id'', DatabaseTypeName = ''INT'', Nullable = (False, True)\<rparr>"

definition name_column :: ColumnType where
  "name_column = \<lparr>Name = ''name'', DatabaseTypeName = ''VARCHAR'', Nullable = (False, True)\<rparr>"

definition age_column :: ColumnType where
  "age_column = \<lparr>Name = ''age'', DatabaseTypeName = ''NUMBER'', Nullable = (False, True)\<rparr>"

definition info_column :: ColumnType where
  "info_column = \<lparr>Name = ''info'', DatabaseTypeName = ''TEXT'', Nullable = (True, True)\<rparr>"

definition users_columns :: "ColumnType list" where
  "users_columns = [id_column, name_column, age_column, info_column]"

definition no_row :: sqlRow where
  "no_row =
     \<lparr>Scan_err = (\<lambda>dests. Some (ErrorString ''sql: no rows in result set'')),
      scan_NullString = (\<lambda>i. ([], False)),
      scan_any = (\<lambda>i. Any_nil)\<rparr>"

definition example_db :: sqlDB where
  "example_db =
     \<lparr>show_tables = Inr [Inr ''users''],
      select_limit0 = (\<lambda>t. Inr (Inr users_columns)),
      primary_key_rows = (\<lambda>t. Inr [Inr ''id'']),
      exec_insert = (\<lambda>t f. Inr (Inr 7)),
      exec_update = (\<lambda>t f pk v. Inr (Inr 1)),
      query_row = (\<lambda>t pk v. Inr no_row)\<rparr>"

definition example_explorer :: DbExplorer where
  "example_explorer =
     \<lparr>DB = example_db, TableNames = [''users''],
      TableColumns = [''users'' \<mapsto> users_columns], router = initRoutes\<rparr>"

definition example_request :: "string \<Rightarrow> string \<Rightarrow> form \<Rightarrow> Request" where
  "example_request method path form =
     \<lparr>r_Method = method, r_URL_Path = path, r_URL_Query = Map.empty, r_Body = Inr form\<rparr>"

text \<open>A submission with a key that is no column of \<open>users\<close>.\<close>

definition extra_form :: form where
  "extra_form =
     [''name'' \<mapsto> Any_string ''Ann'', ''age'' \<mapsto> Any_float64 1, ''role'' \<mapsto> Any_string ''admin'']"

text \<open>An engine on which the table-listing query fails.\<close>

definition failing_db :: sqlDB where
  "failing_db = example_db\<lparr>show_tables := Inl (ErrorString ''connection refused'')\<rparr>"

text \<open>A submission with a number for \<open>name\<close> and a string for \<open>age\<close>.\<close>

definition bad_form :: form where
  "bad_form = [''name'' \<mapsto> Any_float64 1, ''age'' \<mapsto> Any_string ''old'']"

text \<open>
  Further submissions: one with \<open>name\<close> only, one that carries the primary key, and
  a table \<open>notes\<close> whose primary key \<open>id\<close> is its second column, with a submission
  for it. \<open>strictOptions\<close> neither skips missing fields nor substitutes defaults.
\<close>

definition name_only_form :: form where
  "name_only_form = [''name'' \<mapsto> Any_string ''Ann'']"

definition id_form :: form where
  "id_form = [''id'' \<mapsto> Any_float64 9, ''name'' \<mapsto> Any_string ''Bob'']"

definition notes_columns :: "ColumnType list" where
  "notes_columns =
     [\<lparr>Name = ''title'', DatabaseTypeName = ''VARCHAR'', Nullable = (False, True)\<rparr>,
      \<lparr>Name = ''id'', DatabaseTypeName = ''INT'', Nullable = (False, True)\<rparr>]"

definition notes_form :: form where
  "notes_form = [''title'' \<mapsto> Any_float64 1, ''id'' \<mapsto> Any_float64 2]"

definition strictOptions :: ValidationOptions where
  "strictOptions = \<lparr>IgnorePk = True, IgnoreNotProvidedField = False, WithDefaultValues = False\<rparr>"

section \<open>The engine as a store\<close>

text \<open>
  A create followed by a get goes through the engine twice, and what the engine
  replies to the second depends on the first. An engine has states; \<open>replies s\<close> are
  its answers in the state \<open>s\<close>, and \<open>inserted s t form\<close> is its state after the
  \<open>Exec\<close> of the INSERT that \<open>createItem\<close> builds for the table \<open>t\<close> from \<open>form\<close>.
  Queries leave the state as it is.
\<close>

record 's engine =
  replies :: "'s \<Rightarrow> sqlDB"
  inserted :: "'s \<Rightarrow> string \<Rightarrow> form \<Rightarrow> 's"

text \<open>The explorer, its \<open>DB\<close> answering as the engine does in the state \<open>s\<close>.\<close>

definition inState :: "'s engine \<Rightarrow> DbExplorer \<Rightarrow> 's \<Rightarrow> DbExplorer" where
  "inState eng exp s = exp\<lparr>DB := replies eng s\<rparr>"

text \<open>
  \<open>handlerCreateItem\<close> with the state of the engine: what it writes, and the state
  it leaves. Only \<open>createItem\<close> changes the state.
\<close>

definition handlerCreateItem_on ::
  "'s engine \<Rightarrow> DbExplorer \<Rightarrow> 's \<Rightarrow> Request \<Rightarrow> Response outcome \<times> 's"
where
  "handlerCreateItem_on eng exp s r =
     (case getTableName (inState eng exp s) (r_URL_Path r) of
        Panics \<Rightarrow> (Panics, s)
      | Returns (Inl err) \<Rightarrow> (Returns \<lparr>status = 404, body = ErrorJSON (Error err)\<rparr>, s)
      | Returns (Inr tableName) \<Rightarrow>
     (case getColumnTypesFromCache (inState eng exp s) tableName of
        Inl err \<Rightarrow> (Returns \<lparr>status = 500, body = NoBody\<rparr>, s)
      | Inr columns \<Rightarrow>
     (case getPrimaryKey (inState eng exp s) tableName of
        Inl err \<Rightarrow> (Returns \<lparr>status = 500, body = NoBody\<rparr>, s)
      | Inr primaryKey \<Rightarrow>
     (case r_Body r of
        Inl msg \<Rightarrow> (Returns \<lparr>status = 400, body = PlainText msg\<rparr>, s)
      | Inr form \<Rightarrow>
     (case processForm form columns primaryKey createOptions of
        (newForm, Some err) \<Rightarrow> (Returns \<lparr>status = 400, body = ErrorJSON (Error err)\<rparr>, s)
      | (newForm, None) \<Rightarrow>
     (case createItem (inState eng exp s) tableName newForm columns primaryKey of
        Inl err \<Rightarrow>
          (Returns \<lparr>status = 400, body = NoBody\<rparr>, inserted eng s tableName newForm)
      | Inr newId \<Rightarrow>
          (Returns \<lparr>status = 200, body = CreatedJSON primaryKey newId\<rparr>,
           inserted eng s tableName newForm)))))))"

text \<open>
  The engine's side of the round trip. A row \<open>hands back\<close> a stored row when the
  scan succeeds and shows, column by column, the stored value: through a
  \<open>*sql.NullString\<close> a string as a valid string and NULL as not valid, through a
  \<open>*any\<close> the value itself. What a \<open>*sql.NullString\<close> shows of a stored value that
  is neither a string nor NULL is left to the engine and the driver.
\<close>

fun cellHandsBack :: "sqlRow \<Rightarrow> nat \<Rightarrow> ColumnType \<Rightarrow> any option \<Rightarrow> bool" where
  "cellHandsBack row i c None = True"
| "cellHandsBack row i c (Some v) =
     (if isStringType (DatabaseTypeName c) then
        (case v of
           Any_string x \<Rightarrow> scan_NullString row i = (x, True)
         | Any_nil \<Rightarrow> \<not> snd (scan_NullString row i)
         | _ \<Rightarrow> True)
      else scan_any row i = v)"

definition handsBack :: "sqlRow \<Rightarrow> ColumnType list \<Rightarrow> form \<Rightarrow> bool" where
  "handsBack row columns stored =
     (Scan_err row (map (\<lambda>c. isStringType (DatabaseTypeName c)) columns) = None
      \<and> (\<forall>i < length columns. cellHandsBack row i (columns ! i) (stored (Name (columns ! i)))))"

text \<open>
  The engine stores rows: whenever it accepts an INSERT into \<open>t\<close> and assigns the
  id \<open>newId\<close>, then in the state after it the primary key of \<open>t\<close> is found as
  before, and the SELECT by the primary key, asked with a decimal numeral of
  \<open>newId\<close>, gives a row that hands back the inserted row with \<open>newId\<close> as the
  primary key.
\<close>

definition storesRows :: "'s engine \<Rightarrow> string \<Rightarrow> string \<Rightarrow> ColumnType list \<Rightarrow> bool" where
  "storesRows eng t pk columns =
     (\<forall>s form newId idText.
        exec_insert (replies eng s) t form = Inr (Inr newId) \<and> Atoi idText = Some newId \<longrightarrow>
          primary_key_rows (replies eng (inserted eng s t form)) t = primary_key_rows (replies eng s) t
          \<and> (\<exists>row. query_row (replies eng (inserted eng s t form)) t pk idText = Inr row
                \<and> handsBack row columns (form(pk \<mapsto> Any_int newId))))"

text \<open>
  An engine that keeps the rows inserted so far, with their tables, in a list. The
  id of a row is its position, from 1. A string column shows a stored bool as
  \<open>true\<close> or \<open>false\<close>, as the conversion of \<open>database/sql\<close> does.
\<close>

definition stored_row :: "ColumnType list \<Rightarrow> form \<Rightarrow> sqlRow" where
  "stored_row columns stored =
     \<lparr>Scan_err = (\<lambda>dests. None),
      scan_NullString =
        (\<lambda>i. if i < length columns then
                (case stored (Name (columns ! i)) of
                   Some (Any_string x) \<Rightarrow> (x, True)
                 | Some (Any_bool b) \<Rightarrow> (if b then ''true'' else ''false'', True)
                 | _ \<Rightarrow> ([], False))
              else ([], False)),
      scan_any =
        (\<lambda>i. if i < length columns then
                (case stored (Name (columns ! i)) of Some v \<Rightarrow> v | None \<Rightarrow> Any_nil)
              else Any_nil)\<rparr>"

definition store_replies :: "ColumnType list \<Rightarrow> (string \<times> form) list \<Rightarrow> sqlDB" where
  "store_replies columns s =
     example_db
       \<lparr>exec_insert := (\<lambda>t form. Inr (Inr (int (length s) + 1))),
        query_row :=
          (\<lambda>t pk v.
             case Atoi v of
               None \<Rightarrow> Inr no_row
             | Some i \<Rightarrow>
                 if 0 < i \<and> nat i \<le> length s \<and> fst (s ! (nat i - 1)) = t
                 then Inr (stored_row columns ((snd (s ! (nat i - 1)))(pk \<mapsto> Any_int i)))
                 else Inr no_row)\<rparr>"

definition store_engine :: "ColumnType list \<Rightarrow> (string \<times> form) list engine" where
  "store_engine columns =
     \<lparr>replies = store_replies columns, inserted = (\<lambda>s t form. s @ [(t, form)])\<rparr>"

text \<open>
  Submissions for \<open>users\<close> with a value for every column but the primary key, the
  second with a bool for the string column \<open>name\<close>; and a table \<open>stock\<close> with a
  column of type \<open>INT\<close> besides its primary key, with a number submitted for it.
\<close>

definition full_form :: form where
  "full_form = [''name'' \<mapsto> Any_string ''Ann'', ''age'' \<mapsto> Any_float64 1, ''info'' \<mapsto> Any_nil]"

definition bool_form :: form where
  "bool_form = [''name'' \<mapsto> Any_bool True, ''age'' \<mapsto> Any_float64 1, ''info'' \<mapsto> Any_nil]"

definition qty_column :: ColumnType where
  "qty_column = \<lparr>Name = ''qty'', DatabaseTypeName = ''INT'', Nullable = (False, True)\<rparr>"

definition stock_explorer :: DbExplorer where
  "stock_explorer =
     \<lparr>DB = example_db, TableNames = [''stock''],
      TableColumns = [''stock'' \<mapsto> [id_column, qty_column]], router = initRoutes\<rparr>"

definition qty_form :: form where
  "qty_form = [''qty'' \<mapsto> Any_float64 5]"

text \<open>What the loop of \<open>getItem\<close> stores for the column at position \<open>i\<close>.\<close>

definition decodeCell :: "sqlRow \<Rightarrow> nat \<Rightarrow> ColumnType \<Rightarrow> any" where
  "decodeCell row i c =
     (if isStringType (DatabaseTypeName c) then
        (if snd (scan_NullString row i) then Any_string (fst (scan_NullString row i)) else Any_nil)
      else scan_any row i)"

section \<open>Properties of the field validator\<close>

subsection \<open>The loop, one column at a time\<close>

lemma processForm_loop_Cons:
  "processForm_loop form (c # cs) pk opts nf =
     (case columnError form pk opts c of
        Some e \<Rightarrow> (nf, Some e)
      | None \<Rightarrow> processForm_loop form cs pk opts (store nf (Name c) (columnValue form pk opts c)))"
  by (simp add: columnError_def columnValue_def store_def Let_def split: option.splits)

lemmas loop_simps = processForm_loop.simps(1) processForm_loop_Cons

lemma processForm_loop_append:
  "processForm_loop form (pre @ rest) pk opts nf =
     (case processForm_loop form pre pk opts nf of
        (nf', None) \<Rightarrow> processForm_loop form rest pk opts nf'
      | (nf', Some e) \<Rightarrow> (nf', Some e))"
proof (induction pre arbitrary: nf)
  case Nil
  show ?case by simp
next
  case (Cons c cs)
  show ?case
    by (cases "columnError form pk opts c")
       (simp_all only: loop_simps append_Cons option.case Cons.IH prod.case)
qed

lemma columnValue_pk: "Name c = pk \<Longrightarrow> columnValue form pk opts c = None"
  by (simp add: columnValue_def)

lemma processForm_loop_dom:
  "dom (fst (processForm_loop form columns pk opts nf))
     \<subseteq> dom nf \<union> (Name ` set columns - {pk})"
proof (induction columns arbitrary: nf)
  case Nil
  show ?case by simp
next
  case (Cons c cs)
  show ?case
  proof (cases "columnError form pk opts c")
    case (Some e)
    then show ?thesis by (simp add: loop_simps del: processForm_loop.simps)
  next
    case None
    have "dom (store nf (Name c) (columnValue form pk opts c)) \<subseteq> dom nf \<union> ({Name c} - {pk})"
      by (cases "Name c = pk") (auto simp: store_def columnValue_pk split: option.splits)
    with Cons.IH[of "store nf (Name c) (columnValue form pk opts c)"] None
    show ?thesis by (auto simp add: loop_simps simp del: processForm_loop.simps)
  qed
qed

lemma processForm_loop_cong:
  "(\<And>c. c \<in> set columns \<Longrightarrow> form (Name c) = form' (Name c)) \<Longrightarrow>
   processForm_loop form columns pk opts nf = processForm_loop form' columns pk opts nf"
proof (induction columns arbitrary: nf)
  case Nil
  show ?case by simp
next
  case (Cons c cs)
  have eq: "form (Name c) = form' (Name c)" using Cons.prems by simp
  have e: "columnError form pk opts c = columnError form' pk opts c"
    unfolding columnError_def eq ..
  have v: "columnValue form pk opts c = columnValue form' pk opts c"
    unfolding columnValue_def eq ..
  have r: "processForm_loop form cs pk opts nf' = processForm_loop form' cs pk opts nf'" for nf'
    using Cons.IH Cons.prems by simp
  show ?case unfolding processForm_loop_Cons e v r ..
qed

lemma processForm_loop_error_indep:
  "snd (processForm_loop form columns pk opts nf) = snd (processForm_loop form columns pk opts nf')"
proof (induction columns arbitrary: nf nf')
  case Nil
  show ?case by simp
next
  case (Cons c cs)
  show ?case
    by (cases "columnError form pk opts c")
       (simp_all add: loop_simps Cons.IH[of "store nf _ _" "store nf' _ _"]
          del: processForm_loop.simps)
qed

lemma processForm_loop_keep:
  "form n = Some v \<Longrightarrow> nf n = Some v \<Longrightarrow>
   fst (processForm_loop form columns pk opts nf) n = Some v"
proof (induction columns arbitrary: nf)
  case Nil
  then show ?case by simp
next
  case (Cons c cs)
  show ?case
  proof (cases "columnError form pk opts c")
    case (Some e)
    then show ?thesis using Cons.prems by (simp add: loop_simps del: processForm_loop.simps)
  next
    case None
    have "store nf (Name c) (columnValue form pk opts c) n = Some v"
      using Cons.prems by (auto simp: store_def columnValue_def split: option.splits)
    from Cons.IH[of "store nf (Name c) (columnValue form pk opts c)", OF Cons.prems(1) this] None
    show ?thesis by (simp add: loop_simps del: processForm_loop.simps)
  qed
qed

lemma processForm_loop_other:
  "n \<notin> Name ` set columns \<Longrightarrow>
   fst (processForm_loop form columns pk opts nf) n = nf n"
proof (induction columns arbitrary: nf)
  case Nil
  then show ?case by simp
next
  case (Cons c cs)
  have n: "n \<noteq> Name c" "n \<notin> Name ` set cs" using Cons.prems by auto
  have "store nf (Name c) w n = nf n" for w
    using n by (simp add: store_def split: option.splits)
  with Cons.IH[OF n(2)] show ?case
    by (cases "columnError form pk opts c")
       (simp_all add: loop_simps del: processForm_loop.simps)
qed

subsection \<open>Keys of the sanitized map\<close>

lemma processForm_dom: "dom (fst (processForm form columns pk opts)) \<subseteq> Name ` set columns - {pk}"
  using processForm_loop_dom[of form columns pk opts Map.empty] by (simp add: processForm_def)

lemma processForm_restrict:
  "processForm (form |` (Name ` set columns)) columns pk opts = processForm form columns pk opts"
  unfolding processForm_def by (rule processForm_loop_cong) simp

lemma handlerCreateItem_body:
  assumes "getTableName exp (r_URL_Path r) = Returns (Inr t)"
    and "TableColumns exp t = Some columns"
  shows "handlerCreateItem exp (r\<lparr>r_Body := Inr (form |` (Name ` set columns))\<rparr>)
           = handlerCreateItem exp (r\<lparr>r_Body := Inr form\<rparr>)"
  using assms by (simp add: handlerCreateItem_def getColumnTypesFromCache_def processForm_restrict
      split: sum.splits outcome.splits)

lemma handlerUpdateItem_body:
  assumes "getTableName exp (r_URL_Path r) = Returns (Inr t)"
    and "TableColumns exp t = Some columns"
  shows "handlerUpdateItem exp (r\<lparr>r_Body := Inr (form |` (Name ` set columns))\<rparr>)
           = handlerUpdateItem exp (r\<lparr>r_Body := Inr form\<rparr>)"
  using assms by (simp add: handlerUpdateItem_def getColumnTypesFromCache_def processForm_restrict
      split: sum.splits outcome.splits)

lemma getTableName_DB [simp]: "getTableName (exp\<lparr>DB := d\<rparr>) url = getTableName exp url"
  by (simp add: getTableName_def isValidTableName_def split: outcome.splits)

lemma restrict_dom_id: "dom nf \<subseteq> S \<Longrightarrow> nf |` S = nf"
proof (rule ext)
  fix x assume "dom nf \<subseteq> S"
  then show "(nf |` S) x = nf x" by (cases "nf x") (auto simp: restrict_map_def)
qed

lemma processForm_restrict_result:
  "fst (processForm form columns pk opts) |` (Name ` set columns) = fst (processForm form columns pk opts)"
  using processForm_dom[of form columns pk opts] by (intro restrict_dom_id) auto

lemma handlerCreateItem_executor:
  assumes "getTableName exp (r_URL_Path r) = Returns (Inr t)"
    and "TableColumns exp t = Some columns"
  shows "handlerCreateItem
           (exp\<lparr>DB := (DB exp)\<lparr>exec_insert := \<lambda>t f. exec_insert (DB exp) t (f |` (Name ` set columns))\<rparr>\<rparr>) r
           = handlerCreateItem exp r"
proof -
  have "nf |` (Name ` set columns) = nf" if "processForm form columns pk opts = (nf, e)" for form pk opts nf e
    using processForm_restrict_result[of form columns pk opts] that by simp
  then show ?thesis
    using assms
    by (simp add: handlerCreateItem_def getColumnTypesFromCache_def getPrimaryKey_def createItem_def
        split: sum.splits outcome.splits prod.splits option.splits)
qed

lemma handlerUpdateItem_executor:
  assumes "getTableName exp (r_URL_Path r) = Returns (Inr t)"
    and "TableColumns exp t = Some columns"
  shows "handlerUpdateItem
           (exp\<lparr>DB := (DB exp)\<lparr>exec_update := \<lambda>t f. exec_update (DB exp) t (f |` (Name ` set columns))\<rparr>\<rparr>) r
           = handlerUpdateItem exp r"
proof -
  have "nf |` (Name ` set columns) = nf" if "processForm form columns pk opts = (nf, e)" for form pk opts nf e
    using processForm_restrict_result[of form columns pk opts] that by simp
  then show ?thesis
    using assms
    by (simp add: handlerUpdateItem_def getColumnTypesFromCache_def getPrimaryKey_def updateItem_def
        split: sum.splits outcome.splits prod.splits option.splits)
qed

text \<open>
  C4. Every key of the sanitized map is the name of a column of the table. Submitted
  keys that are no column names are ignored: the validator returns the same result,
  error included, with and without them, so do the create and the update handler,
  and an executor that is shown the column keys only cannot be told from the real one.
\<close>

theorem sanitized_keys_are_columns:
  "dom (fst (processForm form columns pk opts)) \<subseteq> Name ` set columns
   \<and> processForm (form |` (Name ` set columns)) columns pk opts = processForm form columns pk opts
   \<and> (getTableName exp (r_URL_Path r) = Returns (Inr t) \<and> TableColumns exp t = Some columns \<longrightarrow>
        handlerCreateItem exp (r\<lparr>r_Body := Inr (form |` (Name ` set columns))\<rparr>)
          = handlerCreateItem exp (r\<lparr>r_Body := Inr form\<rparr>)
      \<and> handlerUpdateItem exp (r\<lparr>r_Body := Inr (form |` (Name ` set columns))\<rparr>)
          = handlerUpdateItem exp (r\<lparr>r_Body := Inr form\<rparr>)
      \<and> handlerCreateItem
           (exp\<lparr>DB := (DB exp)\<lparr>exec_insert := \<lambda>t f. exec_insert (DB exp) t (f |` (Name ` set columns))\<rparr>\<rparr>) r
          = handlerCreateItem exp r
      \<and> handlerUpdateItem
           (exp\<lparr>DB := (DB exp)\<lparr>exec_update := \<lambda>t f. exec_update (DB exp) t (f |` (Name ` set columns))\<rparr>\<rparr>) r
          = handlerUpdateItem exp r)"
proof -
  have "dom (fst (processForm form columns pk opts)) \<subseteq> Name ` set columns"
    using processForm_dom[of form columns pk opts] by auto
  moreover have "processForm (form |` (Name ` set columns)) columns pk opts = processForm form columns pk opts"
    by (rule processForm_restrict)
  ultimately show ?thesis
    by (intro conjI impI; (elim conjE)?)
       (assumption, assumption, erule (1) handlerCreateItem_body, erule (1) handlerUpdateItem_body,
        erule (1) handlerCreateItem_executor, erule (1) handlerUpdateItem_executor)
qed

lemma example_getTableName:
  "getTableName example_explorer ''/users/'' = Returns (Inr ''users'')"
  by (simp add: getTableName_def index_def isValidTableName_def example_explorer_def)

lemma example_TableColumns: "TableColumns example_explorer ''users'' = Some users_columns"
  by (simp add: example_explorer_def)

theorem sanitized_keys_are_columns_witness:
  "getTableName example_explorer (r_URL_Path (example_request ''PUT'' ''/users/'' extra_form))
     = Returns (Inr ''users'')
   \<and> TableColumns example_explorer ''users'' = Some users_columns
   \<and> extra_form ''role'' = Some (Any_string ''admin'')
   \<and> ''role'' \<notin> dom (fst (processForm extra_form users_columns ''id'' createOptions))
   \<and> handlerCreateItem example_explorer
        (example_request ''PUT'' ''/users/'' (extra_form |` (Name ` set users_columns)))
       = handlerCreateItem example_explorer (example_request ''PUT'' ''/users/'' extra_form)
   \<and> handlerCreateItem example_explorer (example_request ''PUT'' ''/users/'' extra_form)
       = Returns \<lparr>status = 200, body = CreatedJSON ''id'' 7\<rparr>"
proof -
  let ?r = "example_request ''PUT'' ''/users/'' extra_form"
  have ok: "handlerCreateItem example_explorer ?r = Returns \<lparr>status = 200, body = CreatedJSON ''id'' 7\<rparr>"
    by (simp add: handlerCreateItem_def getTableName_def index_def isValidTableName_def
        getColumnTypesFromCache_def getPrimaryKey_def createItem_def example_explorer_def
        example_db_def example_request_def processForm_def users_columns_def id_column_def
        name_column_def age_column_def info_column_def createOptions_def extra_form_def
        isNumberType_def isStringType_def Let_def)
  have p: "r_URL_Path ?r = ''/users/''" by (simp add: example_request_def)
  have u: "?r\<lparr>r_Body := Inr f\<rparr> = example_request ''PUT'' ''/users/'' f" for f
    by (simp add: example_request_def)
  have n: "''role'' \<notin> Name ` set users_columns"
    by (simp add: users_columns_def id_column_def name_column_def age_column_def info_column_def)
  have e: "extra_form ''role'' = Some (Any_string ''admin'')" by (simp add: extra_form_def)
  show ?thesis
    using sanitized_keys_are_columns
      [of extra_form users_columns "''id''" createOptions example_explorer ?r "''users''"]
      example_getTableName example_TableColumns n e ok
    unfolding p u by blast
qed

section \<open>Properties of the router\<close>

lemma matches_lang: "matches p s \<longleftrightarrow> s \<in> lang p"
proof (induction p s rule: matches.induct)
  case (1 s)
  show ?case by auto
next
  case (2 a p)
  show ?case by simp
next
  case (3 a p c s)
  then show ?case by simp
next
  case (4 a p)
  then show ?case by simp
next
  case (5 a p c s)
  have "c # s \<in> lang (Star a # p) \<longleftrightarrow>
          c # s \<in> lang p \<or> (atomMatches a c \<and> s \<in> lang (Star a # p))"
  proof
    assume "c # s \<in> lang (Star a # p)"
    then obtain t u where tu: "c # s = t @ u" "\<forall>x \<in> set t. atomMatches a x" "u \<in> lang p"
      by auto
    show "c # s \<in> lang p \<or> (atomMatches a c \<and> s \<in> lang (Star a # p))"
    proof (cases t)
      case Nil
      with tu show ?thesis by simp
    next
      case (Cons x t')
      with tu have "x = c" "s = t' @ u" "atomMatches a c" "\<forall>x \<in> set t'. atomMatches a x" by auto
      with tu(3) show ?thesis by auto
    qed
  next
    assume "c # s \<in> lang p \<or> (atomMatches a c \<and> s \<in> lang (Star a # p))"
    then show "c # s \<in> lang (Star a # p)"
    proof
      assume "c # s \<in> lang p"
      then have "c # s = [] @ (c # s) \<and> (\<forall>x \<in> set []. atomMatches a x) \<and> c # s \<in> lang p" by simp
      then show ?thesis unfolding lang.simps by blast
    next
      assume "atomMatches a c \<and> s \<in> lang (Star a # p)"
      then obtain t u where "atomMatches a c" "s = t @ u" "\<forall>x \<in> set t. atomMatches a x" "u \<in> lang p"
        by auto
      then have "c # s = (c # t) @ u \<and> (\<forall>x \<in> set (c # t). atomMatches a x) \<and> u \<in> lang p" by simp
      then show ?thesis unfolding lang.simps by blast
    qed
  qed
  with 5 show ?case by simp
qed

lemma ServeHTTP_loop_find:
  "ServeHTTP_loop routes method path =
     (case find (\<lambda>route. Method route = method \<and> MatchString (Pattern route) path) routes of
        None \<Rightarrow> StatusNotFound
      | Some route \<Rightarrow> Calls (Handler route))"
  by (induction routes) auto

lemma MatchString_lang: "MatchString re s \<longleftrightarrow> (\<exists>p. re = Anchored p \<and> s \<in> lang p)"
  by (cases re) (simp add: matches_lang)

lemma ServeHTTP_loop_append:
  "ServeHTTP_loop (rs @ rs') method path =
     (case ServeHTTP_loop rs method path of
        Calls h \<Rightarrow> Calls h
      | StatusNotFound \<Rightarrow> ServeHTTP_loop rs' method path)"
  by (induction rs) auto

text \<open>
  C5. The dispatcher calls the handler of the first route, in registration order,
  whose method is the request's and whose pattern denotes the whole request path, and
  answers 404 when there is none. A route registered later is tried only when
  no earlier route takes the request.
\<close>

theorem ServeHTTP_first_match:
  "ServeHTTP routes r =
     (case find (\<lambda>route. Method route = r_Method r
                   \<and> (\<exists>p. Pattern route = Anchored p \<and> r_URL_Path r \<in> lang p)) routes of
        None \<Rightarrow> StatusNotFound
      | Some route \<Rightarrow> Calls (Handler route))
   \<and> ServeHTTP (Handle routes method pattern h) r =
     (case ServeHTTP routes r of
        Calls h' \<Rightarrow> Calls h'
      | StatusNotFound \<Rightarrow>
          if method = r_Method r \<and> r_URL_Path r \<in> lang pattern then Calls h else StatusNotFound)"
proof
  show "ServeHTTP routes r =
     (case find (\<lambda>route. Method route = r_Method r
                   \<and> (\<exists>p. Pattern route = Anchored p \<and> r_URL_Path r \<in> lang p)) routes of
        None \<Rightarrow> StatusNotFound
      | Some route \<Rightarrow> Calls (Handler route))"
    by (simp add: ServeHTTP_def ServeHTTP_loop_find MatchString_lang)
  show "ServeHTTP (Handle routes method pattern h) r =
     (case ServeHTTP routes r of
        Calls h' \<Rightarrow> Calls h'
      | StatusNotFound \<Rightarrow>
          if method = r_Method r \<and> r_URL_Path r \<in> lang pattern then Calls h else StatusNotFound)"
    by (simp add: ServeHTTP_def Handle_def ServeHTTP_loop_append matches_lang split: served.splits)
qed

theorem ServeHTTP_first_match_witness:
  "ServeHTTP initRoutes (example_request ''GET'' ''/users/15'' Map.empty) = Calls HandlerGetTableItem
   \<and> ServeHTTP initRoutes (example_request ''GET'' ''/users/15/x'' Map.empty) = StatusNotFound
   \<and> ServeHTTP initRoutes (example_request ''PATCH'' ''/users/15'' Map.empty) = StatusNotFound"
  using ServeHTTP_first_match
    [of "Handle (Handle (Handle (Handle (Handle NewRouter
          ''GET'' [slash] HandlerGetTableNames)
          ''GET'' [slash, Star WordClass] HandlerGetTableItems)
          ''GET'' [slash, Star WordClass, slash, Star DigitClass] HandlerGetTableItem)
          ''PUT'' [slash, Star WordClass, slash] HandlerCreateItem)
          ''DELETE'' [slash, Star WordClass, slash, Star DigitClass] HandlerDeleteItem"
        "example_request ''GET'' ''/users/15'' Map.empty"
        "''POST''" "[slash, Star WordClass, slash, Star DigitClass]" HandlerUpdateItem]
  by (simp add: initRoutes_def Handle_def NewRouter_def ServeHTTP_def example_request_def
      slash_def isWord_def isDigit_def)

subsection \<open>The fixed route set\<close>

lemma initRoutes_list:
  "initRoutes =
     [\<lparr>Method = ''GET'', Pattern = Anchored [slash], Handler = HandlerGetTableNames\<rparr>,
      \<lparr>Method = ''GET'', Pattern = Anchored [slash, Star WordClass], Handler = HandlerGetTableItems\<rparr>,
      \<lparr>Method = ''GET'', Pattern = Anchored [slash, Star WordClass, slash, Star DigitClass],
         Handler = HandlerGetTableItem\<rparr>,
      \<lparr>Method = ''PUT'', Pattern = Anchored [slash, Star WordClass, slash], Handler = HandlerCreateItem\<rparr>,
      \<lparr>Method = ''DELETE'', Pattern = Anchored [slash, Star WordClass, slash, Star DigitClass],
         Handler = HandlerDeleteItem\<rparr>,
      \<lparr>Method = ''POST'', Pattern = Anchored [slash, Star WordClass, slash, Star DigitClass],
         Handler = HandlerUpdateItem\<rparr>]"
  by (simp add: initRoutes_def Handle_def NewRouter_def)

lemma matches_root: "matches [slash] s \<longleftrightarrow> s = ''/''"
  by (auto simp: matches_lang slash_def)

lemma matches_table:
  "matches [slash, Star WordClass] s \<longleftrightarrow> (\<exists>t. s = CHR ''/'' # t \<and> (\<forall>c \<in> set t. isWord c))"
  by (auto simp: matches_lang slash_def)

lemma matches_table_item:
  "matches [slash, Star WordClass, slash, Star DigitClass] s \<longleftrightarrow>
     (\<exists>t u. s = CHR ''/'' # t @ CHR ''/'' # u \<and> (\<forall>c \<in> set t. isWord c) \<and> (\<forall>c \<in> set u. isDigit c))"
  by (auto simp: matches_lang slash_def)

lemma slash_not_word: "\<not> isWord CHR ''/''"
  by (simp add: isWord_def)

lemma root_item_disjoint:
  "\<not> (matches [slash] s \<and> matches [slash, Star WordClass, slash, Star DigitClass] s)"
  by (auto simp: matches_root matches_table_item)

lemma table_item_disjoint:
  "\<not> (matches [slash, Star WordClass] s \<and> matches [slash, Star WordClass, slash, Star DigitClass] s)"
proof
  assume "matches [slash, Star WordClass] s \<and> matches [slash, Star WordClass, slash, Star DigitClass] s"
  then obtain t t' u where "s = CHR ''/'' # t" "\<forall>c \<in> set t. isWord c" "s = CHR ''/'' # t' @ CHR ''/'' # u"
    unfolding matches_table matches_table_item by blast
  then have "CHR ''/'' \<in> set t" "\<forall>c \<in> set t. isWord c" by auto
  then show False using slash_not_word by blast
qed

lemma same_method_pairs:
  assumes "i < j" "j < length initRoutes" "Method (initRoutes ! i) = Method (initRoutes ! j)"
  shows "(i = 0 \<and> j = 1) \<or> (i = 0 \<and> j = 2) \<or> (i = 1 \<and> j = 2)"
proof -
  have l: "length initRoutes = 6" by (simp add: initRoutes_list)
  have "j = 1 \<or> j = 2 \<or> j = 3 \<or> j = 4 \<or> j = 5" using assms(1,2) l by arith
  moreover have "i = 0 \<or> i = 1 \<or> i = 2 \<or> i = 3 \<or> i = 4" using assms(1,2) l by arith
  ultimately show ?thesis using assms(1,3) by (auto simp: initRoutes_list)
qed

text \<open>
  C6, as amended. In the fixed route set two different routes with the same method
  match the same path for one request only: GET on the path \<open>/\<close>, which both the
  root listing (registered first) and the table-items pattern match, and which goes to
  the root listing because it is registered first. For every other method and path
  at most one route matches.
\<close>

theorem fixed_routes_overlap_only_at_root:
  assumes "i < j" and "j < length initRoutes"
    and "routeMatches (initRoutes ! i) method path"
    and "routeMatches (initRoutes ! j) method path"
  shows "method = ''GET'' \<and> path = ''/'' \<and> i = 0 \<and> j = 1
         \<and> ServeHTTP_loop initRoutes method path = Calls HandlerGetTableNames"
proof -
  have "Method (initRoutes ! i) = Method (initRoutes ! j)"
    using assms(3,4) by (simp add: routeMatches_def)
  from same_method_pairs[OF assms(1,2) this]
  consider "i = 0" "j = 1" | "i = 0" "j = 2" | "i = 1" "j = 2" by blast
  then show ?thesis
  proof cases
    case 1
    with assms(3,4) have "method = ''GET''" "matches [slash] path"
      by (simp_all add: routeMatches_def initRoutes_list)
    then have "method = ''GET''" "path = ''/''" by (simp_all add: matches_root)
    with 1 show ?thesis by (simp add: initRoutes_list slash_def)
  next
    case 2
    with assms(3,4) have "matches [slash] path \<and> matches [slash, Star WordClass, slash, Star DigitClass] path"
      by (simp add: routeMatches_def initRoutes_list)
    then show ?thesis using root_item_disjoint by blast
  next
    case 3
    with assms(3,4) have "matches [slash, Star WordClass] path \<and> matches [slash, Star WordClass, slash, Star DigitClass] path"
      by (simp add: routeMatches_def initRoutes_list)
    then show ?thesis using table_item_disjoint by blast
  qed
qed

theorem fixed_routes_overlap_only_at_root_witness:
  "(0::nat) < 1 \<and> 1 < length initRoutes
   \<and> routeMatches (initRoutes ! 0) ''GET'' ''/''
   \<and> routeMatches (initRoutes ! 1) ''GET'' ''/''
   \<and> ServeHTTP_loop initRoutes ''GET'' ''/'' = Calls HandlerGetTableNames"
proof -
  have a: "(0::nat) < 1" by simp
  have b: "1 < length initRoutes" by (simp add: initRoutes_list)
  have c: "routeMatches (initRoutes ! 0) ''GET'' ''/''"
    by (simp add: routeMatches_def initRoutes_list slash_def)
  have d: "routeMatches (initRoutes ! 1) ''GET'' ''/''"
    by (simp add: routeMatches_def initRoutes_list slash_def)
  from fixed_routes_overlap_only_at_root[OF a b c d] a b c d show ?thesis by blast
qed

text \<open>
  C6, as stated, fails: GET \<open>/\<close> is matched by the first two routes, and with the
  routes in the opposite order another handler runs.
\<close>

theorem fixed_routes_overlap_counterexample:
  "Handler (initRoutes ! 0) \<noteq> Handler (initRoutes ! 1)
   \<and> Method (initRoutes ! 0) = ''GET'' \<and> Method (initRoutes ! 1) = ''GET''
   \<and> MatchString (Pattern (initRoutes ! 0)) ''/''
   \<and> MatchString (Pattern (initRoutes ! 1)) ''/''
   \<and> ServeHTTP_loop initRoutes ''GET'' ''/'' = Calls HandlerGetTableNames
   \<and> ServeHTTP_loop (rev initRoutes) ''GET'' ''/'' = Calls HandlerGetTableItems"
  by (simp add: initRoutes_list slash_def)

section \<open>Properties of the query-parameter decoder\<close>

text \<open>
  C8, as amended. Limit and offset fall back to the defaults 5 and 0 when the
  parameter is absent or does not parse as an integer; otherwise they are the parsed
  integer as it is, which may be negative. The decoder returns no error.
\<close>

theorem getPagination_default_or_verbatim:
  "(query ''limit'' = None \<or> Atoi (Get query ''limit'') = None \<longrightarrow> Limit (getPagination query) = 5)
   \<and> (query ''offset'' = None \<or> Atoi (Get query ''offset'') = None \<longrightarrow> Offset (getPagination query) = 0)
   \<and> (query ''limit'' \<noteq> None \<and> Atoi (Get query ''limit'') = Some n \<longrightarrow> Limit (getPagination query) = n)
   \<and> (query ''offset'' \<noteq> None \<and> Atoi (Get query ''offset'') = Some m \<longrightarrow> Offset (getPagination query) = m)"
  by (auto simp: getPagination_def getQueryIntValue_def Has_def)

lemma Atoi_examples:
  "Atoi ''abc'' = None" "Atoi ''20'' = Some 20" "Atoi ''-1'' = Some (- 1)" "Atoi '''' = None"
  by (simp_all add: Atoi_def digitValue_def inIntRange_def)

theorem getPagination_default_or_verbatim_witness:
  "Limit (getPagination [''limit'' \<mapsto> [''abc''], ''offset'' \<mapsto> [''20'']]) = 5
   \<and> Offset (getPagination [''limit'' \<mapsto> [''abc''], ''offset'' \<mapsto> [''20'']]) = 20
   \<and> Limit (getPagination [''limit'' \<mapsto> [''-1'']]) = - 1
   \<and> Offset (getPagination [''limit'' \<mapsto> [''-1'']]) = 0"
  using getPagination_default_or_verbatim
      [of "[''limit'' \<mapsto> [''abc''], ''offset'' \<mapsto> [''20'']]" 0 20]
    getPagination_default_or_verbatim [of "[''limit'' \<mapsto> [''-1'']]" "- 1" 0]
  by (simp add: Get_def Atoi_examples)

text \<open>C8, as stated, fails: the query \<open>limit=-1\<close> gives a negative limit.\<close>

theorem getPagination_negative_counterexample:
  "Limit (getPagination [''limit'' \<mapsto> [''-1'']]) < 0"
  by (simp add: getPagination_def getQueryIntValue_def Has_def Get_def Atoi_examples)

section \<open>Properties of the construction of the explorer\<close>

text \<open>
  \<open>getTableNames\<close> hands on the error of a failing \<open>Scan\<close>, but returns no error
  when the query itself fails.
\<close>

lemma getTableNames_query_error: "show_tables db = Inl err \<Longrightarrow> getTableNames db = ([], None)"
  by (simp add: getTableNames_def)

lemma getTableNames_scan_error:
  "show_tables db = Inr (map Inr names @ Inl err # rows) \<Longrightarrow> getTableNames db = (names, Some err)"
proof -
  have "getTableNames_loop (map Inr names @ Inl err # rows) acc = (acc @ names, Some err)" for acc
    by (induction names arbitrary: acc) simp_all
  then show "show_tables db = Inr (map Inr names @ Inl err # rows) \<Longrightarrow> getTableNames db = (names, Some err)"
    by (simp add: getTableNames_def)
qed

text \<open>
  C9 does not hold of the code: when the table-listing query fails, \<open>NewDbExplorer\<close>
  returns an explorer with no tables and no error.
\<close>

theorem NewDbExplorer_swallows_listing_error:
  "show_tables db = Inl err \<Longrightarrow>
   NewDbExplorer db =
     Returns (\<lparr>DB = db, TableNames = [], TableColumns = Map.empty, router = initRoutes\<rparr>, None)"
  by (simp add: NewDbExplorer_def getTableNames_query_error)

theorem NewDbExplorer_swallows_listing_error_witness:
  "show_tables failing_db = Inl (ErrorString ''connection refused'')
   \<and> NewDbExplorer failing_db =
     Returns (\<lparr>DB = failing_db, TableNames = [], TableColumns = Map.empty, router = initRoutes\<rparr>, None)"
proof -
  have h: "show_tables failing_db = Inl (ErrorString ''connection refused'')"
    by (simp add: failing_db_def)
  from NewDbExplorer_swallows_listing_error[OF h] h show ?thesis by simp
qed

section \<open>The validator does not write to its input\<close>

lemma processForm_loop_heap_Cons:
  "processForm_loop_heap h fa (c # cs) pk opts na =
     (case columnError (deref h fa) pk opts c of
        Some e \<Rightarrow> (h, Some e)
      | None \<Rightarrow>
          processForm_loop_heap
            (case columnValue (deref h fa) pk opts c of
               None \<Rightarrow> h
             | Some v \<Rightarrow> assign h na (Name c) v)
            fa cs pk opts na)"
  by (simp add: columnError_def columnValue_def Let_def split: option.splits)

lemma deref_assign_other: "a \<noteq> b \<Longrightarrow> deref (assign h b k v) a = deref h a"
  by (simp add: deref_def assign_def)

lemma assign_nth: "b < length h \<Longrightarrow> assign h b k v ! b = (h ! b)(k \<mapsto> v)"
  by (simp add: deref_def assign_def)

lemma length_assign: "length (assign h b k v) = length h"
  by (simp add: assign_def)

lemma assign_update: "(assign h b k v)[b := m] = h[b := m]"
  by (simp add: assign_def)

lemma processForm_loop_heap_refines:
  assumes "fa \<noteq> na" and "na < length h"
  shows "processForm_loop_heap h fa cols pk opts na =
           (h[na := fst (processForm_loop (deref h fa) cols pk opts (h ! na))],
            snd (processForm_loop (deref h fa) cols pk opts (h ! na)))"
  using assms
proof (induction cols arbitrary: h)
  case Nil
  then show ?case by simp
next
  case (Cons c cs)
  show ?case
  proof (cases "columnError (deref h fa) pk opts c")
    case (Some e)
    then show ?thesis
      by (simp add: processForm_loop_heap_Cons processForm_loop_Cons
          del: processForm_loop_heap.simps processForm_loop.simps)
  next
    case None
    note noerr = None
    show ?thesis
    proof (cases "columnValue (deref h fa) pk opts c")
      case None
      with noerr Cons.IH[OF Cons.prems] show ?thesis
        by (simp add: processForm_loop_heap_Cons processForm_loop_Cons store_def
            del: processForm_loop_heap.simps processForm_loop.simps)
    next
      case (Some v)
      let ?h1 = "assign h na (Name c) v"
      have l: "na < length ?h1" using Cons.prems by (simp add: length_assign)
      have d: "deref ?h1 fa = deref h fa" using Cons.prems by (simp add: deref_assign_other)
      have n: "?h1 ! na = (h ! na)(Name c \<mapsto> v)" using Cons.prems by (simp add: assign_nth)
      have IH: "processForm_loop_heap ?h1 fa cs pk opts na =
                  (h[na := fst (processForm_loop (deref h fa) cs pk opts ((h ! na)(Name c \<mapsto> v)))],
                   snd (processForm_loop (deref h fa) cs pk opts ((h ! na)(Name c \<mapsto> v))))"
        using Cons.IH[OF Cons.prems(1) l] unfolding d n assign_update .
      show ?thesis
        unfolding processForm_loop_heap_Cons processForm_loop_Cons noerr Some option.case store_def IH ..
    qed
  qed
qed

lemma processForm_heap_refines:
  assumes "form < length h"
  shows "processForm_heap h form columns pk opts =
           (h @ [fst (processForm (h ! form) columns pk opts)], length h,
            snd (processForm (h ! form) columns pk opts))"
proof -
  have a: "form \<noteq> length h" using assms by simp
  have b: "length h < length (h @ [Map.empty])" by simp
  have d: "deref (h @ [Map.empty]) form = h ! form"
    using assms by (simp add: deref_def nth_append)
  show ?thesis
    unfolding processForm_heap_def make_map_def processForm_def
    by (simp add: processForm_loop_heap_refines[OF a b] d)
qed

text \<open>
  C10. The validator only reads the submitted map. Whatever the columns and the
  options, and whether it returns an error or not, every map object that existed
  before the call, the submitted one among them, is the same after it; the map
  returned is a new object, and it holds what \<open>processForm\<close> computes from the
  submitted map.
\<close>

theorem processForm_heap_frame:
  assumes "form < length h"
    and "processForm_heap h form columns pk opts = (h', newForm, err)"
  shows "take (length h) h' = h \<and> h' ! form = h ! form
         \<and> newForm = length h \<and> length h' = Suc (length h)
         \<and> (h' ! newForm, err) = processForm (h ! form) columns pk opts"
  using assms by (auto simp: processForm_heap_refines nth_append)

lemmas eval_defs = users_columns_def id_column_def name_column_def age_column_def info_column_def
  createOptions_def updateOptions_def extra_form_def bad_form_def
  isNumberType_def isStringType_def getDefaultValue_def Let_def

lemma example_processForm_heap:
  "processForm_heap [extra_form] 0 users_columns ''id'' createOptions =
     ([extra_form, [''name'' \<mapsto> Any_string ''Ann'', ''age'' \<mapsto> Any_float64 1, ''info'' \<mapsto> Any_nil]],
      1, None)"
  by (simp add: processForm_heap_def make_map_def deref_def assign_def eval_defs)

lemma example_processForm_heap_fail:
  "processForm_heap [bad_form] 0 users_columns ''id'' createOptions =
     ([bad_form, Map.empty], 1, Some (ValidationError ''name''))"
  by (simp add: processForm_heap_def make_map_def deref_def assign_def eval_defs)

theorem processForm_heap_frame_witness:
  "(0::nat) < length [extra_form]
   \<and> processForm_heap [extra_form] 0 users_columns ''id'' createOptions =
     ([extra_form, [''name'' \<mapsto> Any_string ''Ann'', ''age'' \<mapsto> Any_float64 1, ''info'' \<mapsto> Any_nil]],
      1, None)
   \<and> processForm extra_form users_columns ''id'' createOptions =
     ([''name'' \<mapsto> Any_string ''Ann'', ''age'' \<mapsto> Any_float64 1, ''info'' \<mapsto> Any_nil], None)
   \<and> processForm_heap [bad_form] 0 users_columns ''id'' createOptions =
     ([bad_form, Map.empty], 1, Some (ValidationError ''name''))
   \<and> processForm bad_form users_columns ''id'' createOptions = (Map.empty, Some (ValidationError ''name''))"
proof -
  have l: "(0::nat) < length [f]" for f :: form by simp
  from processForm_heap_frame[OF l example_processForm_heap]
    processForm_heap_frame[OF l example_processForm_heap_fail]
    example_processForm_heap example_processForm_heap_fail
  show ?thesis by simp
qed

section \<open>What the validator does with a column\<close>

lemma typeSwitchFails_iff:
  "typeSwitchFails v c \<longleftrightarrow>
     (\<exists>x. v = Any_float64 x) \<and> \<not> isNumberType (DatabaseTypeName c)
     \<or> (\<exists>s. v = Any_string s) \<and> \<not> isStringType (DatabaseTypeName c)
     \<or> v = Any_nil \<and> \<not> fst (Nullable c)"
  by (cases v) auto

lemma processForm_loop_fails:
  "c \<in> set columns \<Longrightarrow> columnError form pk opts c \<noteq> None \<Longrightarrow>
   snd (processForm_loop form columns pk opts nf) \<noteq> None"
proof (induction columns arbitrary: nf)
  case Nil
  then show ?case by simp
next
  case (Cons d ds)
  show ?case
  proof (cases "columnError form pk opts d")
    case (Some e)
    then show ?thesis by (simp add: loop_simps del: processForm_loop.simps)
  next
    case None
    with Cons.prems have "c \<in> set ds" by auto
    from Cons.IH[OF this Cons.prems(2)] None show ?thesis
      by (simp add: loop_simps del: processForm_loop.simps)
  qed
qed

lemma processForm_loop_at:
  assumes "snd (processForm_loop form pre pk opts nf) = None"
  shows "processForm_loop form (pre @ c # post) pk opts nf =
           (case columnError form pk opts c of
              Some e \<Rightarrow> (fst (processForm_loop form pre pk opts nf), Some e)
            | None \<Rightarrow>
                processForm_loop form post pk opts
                  (store (fst (processForm_loop form pre pk opts nf)) (Name c)
                     (columnValue form pk opts c)))"
proof -
  obtain nf1 where "processForm_loop form pre pk opts nf = (nf1, None)"
    using assms by (cases "processForm_loop form pre pk opts nf") simp
  then show ?thesis
    by (simp add: processForm_loop_append loop_simps del: processForm_loop.simps
        split: option.splits)
qed

lemma processForm_loop_prefix_ok:
  "snd (processForm_loop form (pre @ rest) pk opts nf) = None \<Longrightarrow>
   snd (processForm_loop form pre pk opts nf) = None"
  by (cases "processForm_loop form pre pk opts nf")
     (auto simp: processForm_loop_append split: option.splits)

lemma processForm_loop_success_at:
  assumes "snd (processForm_loop form (pre @ c # post) pk opts nf) = None"
  shows "columnError form pk opts c = None"
    and "processForm_loop form (pre @ c # post) pk opts nf =
           processForm_loop form post pk opts
             (store (fst (processForm_loop form pre pk opts nf)) (Name c)
                (columnValue form pk opts c))"
proof -
  have p: "snd (processForm_loop form pre pk opts nf) = None"
    using assms by (rule processForm_loop_prefix_ok)
  show e: "columnError form pk opts c = None"
    using assms unfolding processForm_loop_at[OF p]
    by (cases "columnError form pk opts c") simp_all
  show "processForm_loop form (pre @ c # post) pk opts nf =
           processForm_loop form post pk opts
             (store (fst (processForm_loop form pre pk opts nf)) (Name c)
                (columnValue form pk opts c))"
    unfolding processForm_loop_at[OF p] e by simp
qed

lemma columnError_mismatch:
  assumes "Name c \<noteq> pk" "form (Name c) = Some v" "typeSwitchFails v c"
  shows "columnError form pk opts c \<noteq> None"
    and "snd (Nullable c) \<Longrightarrow> columnError form pk opts c = Some (ValidationError (Name c))"
  using assms by (simp_all add: columnError_def)

lemma columnError_missing:
  assumes "Name c \<noteq> pk" "form (Name c) = None" "\<not> IgnoreNotProvidedField opts"
    "\<not> fst (Nullable c)" "\<not> WithDefaultValues opts"
  shows "columnError form pk opts c \<noteq> None"
    and "snd (Nullable c) \<Longrightarrow> columnError form pk opts c = Some (ValidationError (Name c))"
  using assms by (simp_all add: columnError_def)

lemma columnError_pk:
  assumes "Name c = pk" "form pk \<noteq> None" "\<not> IgnorePk opts"
  shows "columnError form pk opts c \<noteq> None"
    and "snd (Nullable c) \<Longrightarrow> columnError form pk opts c = Some (ValidationError pk)"
  using assms by (auto simp add: columnError_def)

lemma handlerCreateItem_validation_failure:
  assumes "getTableName exp (r_URL_Path r) = Returns (Inr t)"
    and "TableColumns exp t = Some columns"
    and "getPrimaryKey exp t = Inr pk"
    and "r_Body r = Inr form"
    and "snd (processForm form columns pk createOptions) = Some e"
  shows "handlerCreateItem exp r = Returns \<lparr>status = 400, body = ErrorJSON (Error e)\<rparr>"
  using assms
  by (cases "processForm form columns pk createOptions")
     (simp add: handlerCreateItem_def getColumnTypesFromCache_def)

lemma handlerUpdateItem_validation_failure:
  assumes "getTableName exp (r_URL_Path r) = Returns (Inr t)"
    and "TableColumns exp t = Some columns"
    and "getPrimaryKey exp t = Inr pk"
    and "r_Body r = Inr form"
    and "getId (r_URL_Path r) = Returns pkValue"
    and "snd (processForm form columns pk updateOptions) = Some e"
  shows "handlerUpdateItem exp r = Returns \<lparr>status = 400, body = ErrorJSON (Error e)\<rparr>"
  using assms
  by (cases "processForm form columns pk updateOptions")
     (simp add: handlerUpdateItem_def getColumnTypesFromCache_def)


lemma processForm_at:
  assumes "snd (processForm form pre pk opts) = None"
  shows "snd (processForm form (pre @ c # post) pk opts) =
           (case columnError form pk opts c of
              Some e \<Rightarrow> Some e
            | None \<Rightarrow> snd (processForm form (pre @ c # post) pk opts))"
  using assms unfolding processForm_def
  by (simp add: processForm_loop_at split: option.splits)

lemma processForm_copied:
  assumes "snd (processForm form (pre @ c # post) pk opts) = None"
    and "Name c \<noteq> pk" and "form (Name c) = Some v"
  shows "fst (processForm form (pre @ c # post) pk opts) (Name c) = Some v"
proof -
  have s: "snd (processForm_loop form (pre @ c # post) pk opts Map.empty) = None"
    using assms(1) by (simp add: processForm_def)
  have "columnValue form pk opts c = Some v"
    using assms(2,3) by (simp add: columnValue_def)
  then have k: "store nf (Name c) (columnValue form pk opts c) (Name c) = Some v" for nf
    by (simp add: store_def)
  show ?thesis
    unfolding processForm_def processForm_loop_success_at(2)[OF s]
    using assms(3) k by (rule processForm_loop_keep)
qed

text \<open>
  C1, as amended. Let a column other than the primary key have a submitted value.
  If the value is a number and the column is not numeric, or a string and the column
  is not a string column, or null and the column is not nullable, then validation
  fails. The failure names the first column of the catalog at which a check fails:
  it names this column when the columns before it validate and the driver reports
  the column's nullability, and then the create and the update handler answer 400
  with the error \<open>field <name> have invalid type\<close>. If the value is none of the
  three and validation succeeds, the sanitized map holds the submitted value under
  the column's name.
\<close>

theorem type_mismatch_rejected_else_copied:
  assumes "Name c \<noteq> pk" and "form (Name c) = Some v"
  shows "if (\<exists>x. v = Any_float64 x) \<and> \<not> isNumberType (DatabaseTypeName c)
            \<or> (\<exists>s. v = Any_string s) \<and> \<not> isStringType (DatabaseTypeName c)
            \<or> v = Any_nil \<and> \<not> fst (Nullable c)
         then
           snd (processForm form (pre @ c # post) pk opts) \<noteq> None
           \<and> (snd (Nullable c) \<and> snd (processForm form pre pk opts) = None \<longrightarrow>
                snd (processForm form (pre @ c # post) pk opts) = Some (ValidationError (Name c)))
           \<and> (snd (Nullable c) \<and> snd (processForm form pre pk createOptions) = None
                \<and> getTableName exp (r_URL_Path r) = Returns (Inr t)
                \<and> TableColumns exp t = Some (pre @ c # post)
                \<and> getPrimaryKey exp t = Inr pk \<and> r_Body r = Inr form \<longrightarrow>
                handlerCreateItem exp r =
                  Returns \<lparr>status = 400,
                    body = ErrorJSON (''field '' @ Name c @ '' have invalid type'')\<rparr>)
           \<and> (snd (Nullable c) \<and> snd (processForm form pre pk updateOptions) = None
                \<and> getTableName exp (r_URL_Path r) = Returns (Inr t)
                \<and> TableColumns exp t = Some (pre @ c # post)
                \<and> getPrimaryKey exp t = Inr pk \<and> r_Body r = Inr form
                \<and> getId (r_URL_Path r) = Returns pkValue \<longrightarrow>
                handlerUpdateItem exp r =
                  Returns \<lparr>status = 400,
                    body = ErrorJSON (''field '' @ Name c @ '' have invalid type'')\<rparr>)
         else
           (snd (processForm form (pre @ c # post) pk opts) = None \<longrightarrow>
              fst (processForm form (pre @ c # post) pk opts) (Name c) = Some v)"
proof (cases "typeSwitchFails v c")
  case True
  note ce = columnError_mismatch[where form=form and c=c and pk=pk and v=v, OF assms True]
  have named: "snd (processForm form (pre @ c # post) pk o') = Some (ValidationError (Name c))"
    if "snd (Nullable c)" "snd (processForm form pre pk o') = None" for o'
    using processForm_at[OF that(2), of c post] ce(2)[OF that(1), of o'] by simp
  have fails: "snd (processForm form (pre @ c # post) pk opts) \<noteq> None"
    unfolding processForm_def by (rule processForm_loop_fails[of c]) (simp_all add: ce(1))
  have create: "handlerCreateItem exp r =
      Returns \<lparr>status = 400, body = ErrorJSON (''field '' @ Name c @ '' have invalid type'')\<rparr>"
    if "snd (Nullable c)" "snd (processForm form pre pk createOptions) = None"
      "getTableName exp (r_URL_Path r) = Returns (Inr t)"
      "TableColumns exp t = Some (pre @ c # post)"
      "getPrimaryKey exp t = Inr pk" "r_Body r = Inr form"
    using handlerCreateItem_validation_failure[OF that(3,4,5,6) named[OF that(1,2)]] by simp
  have update: "handlerUpdateItem exp r =
      Returns \<lparr>status = 400, body = ErrorJSON (''field '' @ Name c @ '' have invalid type'')\<rparr>"
    if "snd (Nullable c)" "snd (processForm form pre pk updateOptions) = None"
      "getTableName exp (r_URL_Path r) = Returns (Inr t)"
      "TableColumns exp t = Some (pre @ c # post)"
      "getPrimaryKey exp t = Inr pk" "r_Body r = Inr form"
      "getId (r_URL_Path r) = Returns pkValue"
    using handlerUpdateItem_validation_failure[OF that(3,4,5,6,7) named[OF that(1,2)]] by simp
  have "(\<exists>x. v = Any_float64 x) \<and> \<not> isNumberType (DatabaseTypeName c)
            \<or> (\<exists>s. v = Any_string s) \<and> \<not> isStringType (DatabaseTypeName c)
            \<or> v = Any_nil \<and> \<not> fst (Nullable c)"
    using True unfolding typeSwitchFails_iff .
  then show ?thesis using fails named create update by (simp only: if_True) blast
next
  case False
  have "\<not> ((\<exists>x. v = Any_float64 x) \<and> \<not> isNumberType (DatabaseTypeName c)
            \<or> (\<exists>s. v = Any_string s) \<and> \<not> isStringType (DatabaseTypeName c)
            \<or> v = Any_nil \<and> \<not> fst (Nullable c))"
    using False unfolding typeSwitchFails_iff .
  then show ?thesis
    using processForm_copied[where form=form and c=c and pk=pk and v=v, OF _ assms]
    by (simp only: if_False) blast
qed


lemmas handler_eval_defs = handlerCreateItem_def handlerUpdateItem_def getTableName_def index_def
  isValidTableName_def getColumnTypesFromCache_def getPrimaryKey_def getId_def createItem_def
  updateItem_def example_explorer_def example_db_def example_request_def processForm_def

theorem type_mismatch_rejected_else_copied_witness:
  "Name name_column \<noteq> ''id'' \<and> bad_form (Name name_column) = Some (Any_float64 1)
   \<and> \<not> isNumberType (DatabaseTypeName name_column)
   \<and> snd (processForm bad_form users_columns ''id'' createOptions) = Some (ValidationError ''name'')
   \<and> handlerCreateItem example_explorer (example_request ''PUT'' ''/users/'' bad_form) =
       Returns \<lparr>status = 400, body = ErrorJSON ''field name have invalid type''\<rparr>
   \<and> handlerUpdateItem example_explorer (example_request ''POST'' ''/users/3'' bad_form) =
       Returns \<lparr>status = 400, body = ErrorJSON ''field name have invalid type''\<rparr>
   \<and> extra_form (Name name_column) = Some (Any_string ''Ann'')
   \<and> isStringType (DatabaseTypeName name_column)
   \<and> snd (processForm extra_form users_columns ''id'' createOptions) = None
   \<and> fst (processForm extra_form users_columns ''id'' createOptions) ''name'' = Some (Any_string ''Ann'')"
  using type_mismatch_rejected_else_copied
      [where c=name_column and pk="''id''" and form=bad_form and v="Any_float64 1"
         and pre="[id_column]" and post="[age_column, info_column]" and opts=createOptions
         and exp=example_explorer and r="example_request ''PUT'' ''/users/'' bad_form"
         and t="''users''" and pkValue="[]"]
    type_mismatch_rejected_else_copied
      [where c=name_column and pk="''id''" and form=bad_form and v="Any_float64 1"
         and pre="[id_column]" and post="[age_column, info_column]" and opts=updateOptions
         and exp=example_explorer and r="example_request ''POST'' ''/users/3'' bad_form"
         and t="''users''" and pkValue="''3''"]
    type_mismatch_rejected_else_copied
      [where c=name_column and pk="''id''" and form=extra_form and v="Any_string ''Ann''"
         and pre="[id_column]" and post="[age_column, info_column]" and opts=createOptions]
  by (simp add: eval_defs handler_eval_defs)

text \<open>
  C1, as stated, fails: with a number for \<open>name\<close> and a string for \<open>age\<close>, the
  failure names \<open>name\<close>, the first of the two in the catalog, and not \<open>age\<close>.
\<close>

theorem type_mismatch_names_first_counterexample:
  "age_column \<in> set users_columns \<and> Name age_column \<noteq> ''id''
   \<and> bad_form (Name age_column) = Some (Any_string ''old'')
   \<and> \<not> isStringType (DatabaseTypeName age_column)
   \<and> snd (processForm bad_form users_columns ''id'' createOptions) \<noteq> Some (ValidationError (Name age_column))
   \<and> snd (processForm bad_form users_columns ''id'' createOptions) = Some (ValidationError ''name'')"
  by (simp add: eval_defs processForm_def)


lemma processForm_missing_value:
  assumes "snd (processForm form (pre @ c # post) pk opts) = None"
    and "Name c \<notin> Name ` set post"
  shows "fst (processForm form (pre @ c # post) pk opts) (Name c) =
           store (fst (processForm form pre pk opts)) (Name c) (columnValue form pk opts c) (Name c)"
proof -
  have s: "snd (processForm_loop form (pre @ c # post) pk opts Map.empty) = None"
    using assms(1) by (simp add: processForm_def)
  show ?thesis
    unfolding processForm_def processForm_loop_success_at(2)[OF s]
    using assms(2) by (rule processForm_loop_other)
qed

text \<open>
  C2, as amended. Let missing fields not be ignored, the column names be distinct,
  and a column other than the primary key have no submitted value. When validation
  succeeds, the sanitized map holds null for the column if it is nullable, and, if
  it is not and defaults are substituted, the default of its type: 0 for a numeric
  column, the empty string for a string column, false otherwise. If it is not
  nullable and defaults are not substituted, validation fails; the failure names the
  first column of the catalog at which a check fails, so this column when the
  columns before it validate and the driver reports the column's nullability.
\<close>

theorem missing_column_null_default_or_failure:
  assumes "\<not> IgnoreNotProvidedField opts" and "Name c \<noteq> pk" and "form (Name c) = None"
    and "distinct (map Name (pre @ c # post))"
  shows "(fst (Nullable c) \<and> snd (processForm form (pre @ c # post) pk opts) = None \<longrightarrow>
            fst (processForm form (pre @ c # post) pk opts) (Name c) = Some Any_nil)
       \<and> (\<not> fst (Nullable c) \<and> WithDefaultValues opts
            \<and> snd (processForm form (pre @ c # post) pk opts) = None \<longrightarrow>
            fst (processForm form (pre @ c # post) pk opts) (Name c) =
              Some (if isNumberType (DatabaseTypeName c) then Any_int 0
                    else if isStringType (DatabaseTypeName c) then Any_string []
                    else Any_bool False))
       \<and> (\<not> fst (Nullable c) \<and> \<not> WithDefaultValues opts \<longrightarrow>
            snd (processForm form (pre @ c # post) pk opts) \<noteq> None
            \<and> (snd (Nullable c) \<and> snd (processForm form pre pk opts) = None \<longrightarrow>
                 snd (processForm form (pre @ c # post) pk opts) = Some (ValidationError (Name c))))"
proof -
  have notin: "Name c \<notin> Name ` set post" using assms(4) by auto
  have val: "fst (processForm form (pre @ c # post) pk opts) (Name c) =
      (if fst (Nullable c) then Some Any_nil else Some (getDefaultValue (DatabaseTypeName c)))"
    if "snd (processForm form (pre @ c # post) pk opts) = None"
    unfolding processForm_missing_value[OF that notin]
    using assms(1,2,3) by (simp add: store_def columnValue_def)
  have fails: "snd (processForm form (pre @ c # post) pk opts) \<noteq> None"
    if "\<not> fst (Nullable c)" "\<not> WithDefaultValues opts"
    unfolding processForm_def
    by (rule processForm_loop_fails[of c])
       (simp_all add: columnError_missing(1)[where form=form, OF assms(2,3,1) that])
  have named: "snd (processForm form (pre @ c # post) pk opts) = Some (ValidationError (Name c))"
    if "\<not> fst (Nullable c)" "\<not> WithDefaultValues opts" "snd (Nullable c)"
      "snd (processForm form pre pk opts) = None"
    using processForm_at[OF that(4), of c post]
      columnError_missing(2)[where form=form, OF assms(2,3,1) that(1,2,3)] by simp
  show ?thesis using val fails named by (simp add: getDefaultValue_def)
qed

theorem missing_column_null_default_or_failure_witness:
  "\<not> IgnoreNotProvidedField createOptions \<and> \<not> IgnoreNotProvidedField strictOptions
   \<and> name_only_form ''age'' = None \<and> name_only_form ''info'' = None
   \<and> distinct (map Name users_columns)
   \<and> snd (processForm name_only_form users_columns ''id'' createOptions) = None
   \<and> fst (processForm name_only_form users_columns ''id'' createOptions) ''info'' = Some Any_nil
   \<and> fst (processForm name_only_form users_columns ''id'' createOptions) ''age'' = Some (Any_int 0)
   \<and> snd (processForm name_only_form users_columns ''id'' strictOptions) = Some (ValidationError ''age'')"
  using missing_column_null_default_or_failure
      [where opts=createOptions and c=info_column and pk="''id''" and form=name_only_form
         and pre="[id_column, name_column, age_column]" and post="[]"]
    missing_column_null_default_or_failure
      [where opts=createOptions and c=age_column and pk="''id''" and form=name_only_form
         and pre="[id_column, name_column]" and post="[info_column]"]
    missing_column_null_default_or_failure
      [where opts=strictOptions and c=age_column and pk="''id''" and form=name_only_form
         and pre="[id_column, name_column]" and post="[info_column]"]
  by (simp add: eval_defs processForm_def strictOptions_def name_only_form_def)

text \<open>
  C2, as stated, fails. With nothing submitted and no defaults, the failure names
  \<open>name\<close>, the first missing column, and not \<open>age\<close>, which is missing and not
  nullable too. And the primary key \<open>id\<close>, not nullable and not submitted, gets no
  default under the create policy: it is left out of the sanitized map.
\<close>

theorem missing_column_names_first_counterexample:
  "\<not> IgnoreNotProvidedField strictOptions \<and> \<not> WithDefaultValues strictOptions
   \<and> age_column \<in> set users_columns \<and> Map.empty (Name age_column) = (None :: any option)
   \<and> \<not> fst (Nullable age_column)
   \<and> snd (processForm Map.empty users_columns ''id'' strictOptions) \<noteq> Some (ValidationError (Name age_column))
   \<and> snd (processForm Map.empty users_columns ''id'' strictOptions) = Some (ValidationError ''name'')
   \<and> \<not> IgnoreNotProvidedField createOptions \<and> WithDefaultValues createOptions
   \<and> id_column \<in> set users_columns \<and> name_only_form (Name id_column) = None
   \<and> \<not> fst (Nullable id_column)
   \<and> snd (processForm name_only_form users_columns ''id'' createOptions) = None
   \<and> fst (processForm name_only_form users_columns ''id'' createOptions) (Name id_column) = None"
  by (simp add: eval_defs processForm_def strictOptions_def name_only_form_def)

lemma processForm_loop_ignore_pk:
  assumes "IgnorePk opts"
  shows "processForm_loop (form(pk := x)) columns pk opts nf = processForm_loop form columns pk opts nf"
proof (induction columns arbitrary: nf)
  case Nil
  show ?case by simp
next
  case (Cons c cs)
  have e: "columnError (form(pk := x)) pk opts c = columnError form pk opts c"
    using assms by (simp add: columnError_def)
  have v: "columnValue (form(pk := x)) pk opts c = columnValue form pk opts c"
    by (simp add: columnValue_def)
  show ?case unfolding processForm_loop_Cons e v Cons.IH ..
qed

lemma handlerCreateItem_ignores_pk:
  assumes "getTableName exp (r_URL_Path r) = Returns (Inr t)"
    and "TableColumns exp t = Some columns"
    and "getPrimaryKey exp t = Inr pk"
  shows "handlerCreateItem exp (r\<lparr>r_Body := Inr (form(pk := x))\<rparr>) =
           handlerCreateItem exp (r\<lparr>r_Body := Inr form\<rparr>)"
proof -
  have "processForm (form(pk := x)) columns pk createOptions = processForm form columns pk createOptions"
    unfolding processForm_def by (rule processForm_loop_ignore_pk) (simp add: createOptions_def)
  then show ?thesis
    using assms by (simp add: handlerCreateItem_def getColumnTypesFromCache_def)
qed

text \<open>
  C3, as amended. The primary key is never a key of the sanitized map. When the
  primary key is ignored (the create policy), a submitted value for it changes
  nothing: the validator and the create handler return what they return without it.
  When it is not ignored (the update policy) and the map has a value for the primary
  key column, validation fails; the failure names the first column of the catalog at
  which a check fails, so the primary key when the columns before it validate and
  the driver reports its nullability.
\<close>

theorem primary_key_rejected_or_dropped:
  "pk \<notin> dom (fst (processForm form columns pk opts))
   \<and> (IgnorePk opts \<longrightarrow>
        processForm form columns pk opts = processForm (form(pk := None)) columns pk opts)
   \<and> IgnorePk createOptions \<and> \<not> IgnorePk updateOptions
   \<and> (getTableName exp (r_URL_Path r) = Returns (Inr t) \<and> TableColumns exp t = Some columns
        \<and> getPrimaryKey exp t = Inr pk \<longrightarrow>
        handlerCreateItem exp (r\<lparr>r_Body := Inr form\<rparr>) =
          handlerCreateItem exp (r\<lparr>r_Body := Inr (form(pk := None))\<rparr>))
   \<and> (\<not> IgnorePk opts \<and> form pk \<noteq> None \<and> pk \<in> Name ` set columns \<longrightarrow>
        snd (processForm form columns pk opts) \<noteq> None)
   \<and> (\<not> IgnorePk opts \<and> form pk \<noteq> None \<and> columns = pre @ c # post \<and> Name c = pk
        \<and> snd (Nullable c) \<and> snd (processForm form pre pk opts) = None \<longrightarrow>
        snd (processForm form columns pk opts) = Some (ValidationError pk))"
proof -
  have a: "pk \<notin> dom (fst (processForm form columns pk opts))"
    using processForm_dom[of form columns pk opts] by auto
  have b: "processForm form columns pk opts = processForm (form(pk := None)) columns pk opts"
    if "IgnorePk opts"
    unfolding processForm_def using processForm_loop_ignore_pk[OF that, of form pk None] by simp
  have c: "handlerCreateItem exp (r\<lparr>r_Body := Inr form\<rparr>) =
          handlerCreateItem exp (r\<lparr>r_Body := Inr (form(pk := None))\<rparr>)"
    if "getTableName exp (r_URL_Path r) = Returns (Inr t)" "TableColumns exp t = Some columns"
      "getPrimaryKey exp t = Inr pk"
    using handlerCreateItem_ignores_pk[OF that, of form None] by simp
  have d: "snd (processForm form columns pk opts) \<noteq> None"
    if "\<not> IgnorePk opts" "form pk \<noteq> None" "pk \<in> Name ` set columns"
  proof -
    from that(3) obtain k where k: "k \<in> set columns" "Name k = pk" by auto
    show ?thesis
      unfolding processForm_def
      by (rule processForm_loop_fails[OF k(1)]) (rule columnError_pk(1)[where form=form, OF k(2) that(2,1)])
  qed
  have e: "snd (processForm form columns pk opts) = Some (ValidationError pk)"
    if "\<not> IgnorePk opts" "form pk \<noteq> None" "columns = pre @ c # post" "Name c = pk"
      "snd (Nullable c)" "snd (processForm form pre pk opts) = None"
    using processForm_at[OF that(6), of c post] columnError_pk(2)[where form=form, OF that(4,2,1,5)] that(3)
    by simp
  show ?thesis
    using a b c d e by (simp add: createOptions_def updateOptions_def)
qed

theorem primary_key_rejected_or_dropped_witness:
  "id_form ''id'' = Some (Any_float64 9) \<and> ''id'' \<in> Name ` set users_columns
   \<and> ''id'' \<notin> dom (fst (processForm id_form users_columns ''id'' createOptions))
   \<and> snd (processForm id_form users_columns ''id'' createOptions) = None
   \<and> handlerCreateItem example_explorer (example_request ''PUT'' ''/users/'' id_form) =
       Returns \<lparr>status = 200, body = CreatedJSON ''id'' 7\<rparr>
   \<and> snd (processForm id_form users_columns ''id'' updateOptions) = Some (ValidationError ''id'')"
  using primary_key_rejected_or_dropped
      [where pk="''id''" and form=id_form and columns=users_columns and opts=createOptions
         and exp=example_explorer and r="example_request ''PUT'' ''/users/'' id_form"
         and t="''users''"]
    primary_key_rejected_or_dropped
      [where pk="''id''" and form=id_form and columns=users_columns and opts=updateOptions
         and pre="[]" and c=id_column and post="[name_column, age_column, info_column]"]
  by (simp add: eval_defs handler_eval_defs id_form_def)

text \<open>
  C3, as stated, fails: in \<open>notes\<close> the column \<open>title\<close> comes before the primary
  key, and an update that submits the primary key and a number for \<open>title\<close> fails
  naming \<open>title\<close>.
\<close>

theorem primary_key_named_counterexample:
  "\<not> IgnorePk updateOptions \<and> notes_form ''id'' \<noteq> None \<and> ''id'' \<in> Name ` set notes_columns
   \<and> snd (processForm notes_form notes_columns ''id'' updateOptions) \<noteq> Some (ValidationError ''id'')
   \<and> snd (processForm notes_form notes_columns ''id'' updateOptions) = Some (ValidationError ''title'')"
  by (simp add: eval_defs processForm_def notes_columns_def notes_form_def)

section \<open>Create, then get\<close>

lemma map_add_restrict_insert:
  "m n = Some v \<Longrightarrow> nf(n \<mapsto> v) ++ (m |` S) = nf ++ (m |` insert n S)"
  by (rule ext) (auto simp: map_add_def restrict_map_def split: option.splits)

lemma processForm_loop_accepts:
  assumes "IgnorePk opts"
    and "\<forall>c \<in> set columns. snd (Nullable c)"
    and "\<forall>c \<in> set columns. Name c \<noteq> pk \<longrightarrow> (\<exists>v. form (Name c) = Some v \<and> \<not> typeSwitchFails v c)"
  shows "processForm_loop form columns pk opts nf =
           (nf ++ (form |` (Name ` set columns - {pk})), None)"
  using assms(2,3)
proof (induction columns arbitrary: nf)
  case Nil
  show ?case by simp
next
  case (Cons c cs)
  have ok: "snd (Nullable c)" using Cons.prems(1) by simp
  have IH: "processForm_loop form cs pk opts nf' = (nf' ++ (form |` (Name ` set cs - {pk})), None)"
    for nf'
    using Cons.IH Cons.prems by simp
  show ?case
  proof (cases "Name c = pk")
    case True
    have e: "columnError form pk opts c = None"
      using True ok assms(1) by (simp add: columnError_def)
    have v: "columnValue form pk opts c = None"
      using True by (simp add: columnValue_def)
    have s: "Name ` set (c # cs) - {pk} = Name ` set cs - {pk}"
      using True by auto
    show ?thesis unfolding processForm_loop_Cons e v s by (simp add: store_def IH)
  next
    case False
    then obtain x where x: "form (Name c) = Some x" "\<not> typeSwitchFails x c"
      using Cons.prems(2) by auto
    have e: "columnError form pk opts c = None"
      using False ok x by (simp add: columnError_def)
    have v: "columnValue form pk opts c = Some x"
      using False x by (simp add: columnValue_def)
    have s: "Name ` set (c # cs) - {pk} = insert (Name c) (Name ` set cs - {pk})"
      using False by auto
    show ?thesis
      unfolding processForm_loop_Cons e v s
      by (simp add: store_def IH map_add_restrict_insert[where m=form and n="Name c", OF x(1)])
  qed
qed

lemma processForm_accepts:
  assumes "\<forall>c \<in> set columns. snd (Nullable c)"
    and "\<forall>c \<in> set columns. Name c \<noteq> pk \<longrightarrow> (\<exists>v. form (Name c) = Some v \<and> \<not> typeSwitchFails v c)"
  shows "processForm form columns pk createOptions = (form |` (Name ` set columns - {pk}), None)"
  unfolding processForm_def
  by (subst processForm_loop_accepts[OF _ assms]) (simp_all add: createOptions_def)

text \<open>With the state threaded, the create handler writes what \<open>handlerCreateItem\<close> writes.\<close>

lemma handlerCreateItem_on_response:
  "fst (handlerCreateItem_on eng exp s r) = handlerCreateItem (inState eng exp s) r"
  by (simp add: handlerCreateItem_on_def handlerCreateItem_def
      split: outcome.splits sum.splits prod.splits option.splits)

lemma getItem_loop_Cons:
  "getItem_loop row (c # cs) i res = getItem_loop row cs (Suc i) (res(Name c \<mapsto> decodeCell row i c))"
  by (simp add: decodeCell_def)

lemma getItem_loop_stored:
  assumes "\<forall>j < length cs. stored (Name (cs ! j)) = Some (decodeCell row (i + j) (cs ! j))"
  shows "getItem_loop row cs i res = res ++ (stored |` (Name ` set cs))"
  using assms
proof (induction cs arbitrary: i res)
  case Nil
  show ?case by simp
next
  case (Cons c cs)
  have c: "stored (Name c) = Some (decodeCell row i c)"
    using Cons.prems by auto
  have "\<forall>j < length cs. stored (Name (cs ! j)) = Some (decodeCell row (Suc i + j) (cs ! j))"
  proof (intro allI impI)
    fix j assume "j < length cs"
    then have "Suc j < length (c # cs)" by simp
    from Cons.prems[rule_format, OF this] show "stored (Name (cs ! j)) = Some (decodeCell row (Suc i + j) (cs ! j))"
      by simp
  qed
  then have "getItem_loop row cs (Suc i) (res(Name c \<mapsto> decodeCell row i c)) =
               res(Name c \<mapsto> decodeCell row i c) ++ (stored |` (Name ` set cs))"
    by (rule Cons.IH)
  also have "\<dots> = res ++ (stored |` insert (Name c) (Name ` set cs))"
    by (rule map_add_restrict_insert[where m=stored and n="Name c", OF c])
  finally show ?case unfolding getItem_loop_Cons by simp
qed

lemma getItem_loop_other:
  "n \<notin> Name ` set cs \<Longrightarrow> getItem_loop row cs i res n = res n"
  by (induction cs arbitrary: i res) (simp_all del: getItem_loop.simps(2) add: getItem_loop_Cons)

lemma getItem_loop_string_column:
  assumes "c \<in> set cs" and "isStringType (DatabaseTypeName c)" and "distinct (map Name cs)"
  shows "getItem_loop row cs i res (Name c) = Some Any_nil
         \<or> (\<exists>x. getItem_loop row cs i res (Name c) = Some (Any_string x))"
  using assms(1,3)
proof (induction cs arbitrary: i res)
  case Nil
  then show ?case by simp
next
  case (Cons d ds)
  show ?case
  proof (cases "c = d")
    case True
    have "Name c \<notin> Name ` set ds" using Cons.prems(2) True by auto
    then show ?thesis
      unfolding getItem_loop_Cons True[symmetric]
      using assms(2) by (simp add: getItem_loop_other decodeCell_def)
  next
    case False
    then have "c \<in> set ds" "distinct (map Name ds)" using Cons.prems by auto
    from Cons.IH[OF this] show ?thesis unfolding getItem_loop_Cons .
  qed
qed

text \<open>
  Whatever the engine replies, the record that \<open>GET\<close> shows has a string or null
  under the name of a string column.
\<close>

lemma get_string_column_is_string_or_null:
  assumes "handlerGetTableItem exp r = Returns \<lparr>status = 200, body = RecordJSON item\<rparr>"
    and "getTableName exp (r_URL_Path r) = Returns (Inr t)"
    and "TableColumns exp t = Some columns"
    and "distinct (map Name columns)"
    and "c \<in> set columns" and "isStringType (DatabaseTypeName c)"
  shows "item (Name c) = Some Any_nil \<or> (\<exists>x. item (Name c) = Some (Any_string x))"
proof -
  from assms(1,2,3) obtain row where "item = getItem_loop row columns 0 Map.empty"
    by (auto simp: handlerGetTableItem_def getItem_def getColumnTypesFromCache_def
        split: outcome.splits sum.splits prod.splits option.splits)
  then show ?thesis
    using getItem_loop_string_column[OF assms(5,6,4), of row 0 Map.empty] by simp
qed

lemma cellHandsBack_decode:
  assumes "cellHandsBack row i c (Some v)"
    and "isStringType (DatabaseTypeName c) \<longrightarrow> v = Any_nil \<or> (\<exists>x. v = Any_string x)"
  shows "decodeCell row i c = v"
  using assms by (auto simp: decodeCell_def)

lemma getItem_handsBack:
  assumes "query_row (DB exp) t pk idText = Inr row"
    and "TableColumns exp t = Some columns"
    and "handsBack row columns stored"
    and "\<forall>c \<in> set columns. \<exists>v. stored (Name c) = Some v
           \<and> (isStringType (DatabaseTypeName c) \<longrightarrow> v = Any_nil \<or> (\<exists>x. v = Any_string x))"
  shows "getItem exp t pk idText = (stored |` (Name ` set columns), None)"
proof -
  have "\<forall>j < length columns. stored (Name (columns ! j)) = Some (decodeCell row (0 + j) (columns ! j))"
  proof (intro allI impI)
    fix j assume j: "j < length columns"
    then have "columns ! j \<in> set columns" by simp
    with assms(4) obtain v where v: "stored (Name (columns ! j)) = Some v"
      "isStringType (DatabaseTypeName (columns ! j)) \<longrightarrow> v = Any_nil \<or> (\<exists>x. v = Any_string x)"
      by blast
    from assms(3) j have "cellHandsBack row j (columns ! j) (stored (Name (columns ! j)))"
      by (simp add: handsBack_def)
    then have "cellHandsBack row j (columns ! j) (Some v)" using v(1) by simp
    from cellHandsBack_decode[OF this v(2)] v(1)
    show "stored (Name (columns ! j)) = Some (decodeCell row (0 + j) (columns ! j))" by simp
  qed
  from getItem_loop_stored[OF this, of Map.empty]
  show ?thesis
    using assms(1,2,3) by (simp add: getItem_def getColumnTypesFromCache_def handsBack_def)
qed

lemma handsBack_stored_row: "handsBack (stored_row columns stored) columns stored"
proof -
  have "cellHandsBack (stored_row columns stored) i (columns ! i) (stored (Name (columns ! i)))"
    if "i < length columns" for i
  proof (cases "stored (Name (columns ! i))")
    case None
    then show ?thesis by simp
  next
    case (Some v)
    with that show ?thesis by (cases v) (simp_all add: stored_row_def)
  qed
  then show ?thesis by (simp add: handsBack_def stored_row_def)
qed

lemma store_engine_storesRows: "storesRows (store_engine columns) t pk columns"
  unfolding storesRows_def
proof (intro allI impI, elim conjE)
  fix s :: "(string \<times> form) list" and form newId idText
  assume ins: "exec_insert (replies (store_engine columns) s) t form = Inr (Inr newId)"
    and num: "Atoi idText = Some newId"
  let ?s' = "inserted (store_engine columns) s t form"
  have s': "?s' = s @ [(t, form)]" by (simp add: store_engine_def)
  have newId: "newId = int (length s) + 1"
    using ins by (simp add: store_engine_def store_replies_def)
  have pos: "0 < newId" "nat newId \<le> length (s @ [(t, form)])" "nat newId - 1 = length s"
    using newId by simp_all
  have at: "(s @ [(t, form)]) ! (nat newId - 1) = (t, form)"
    unfolding pos(3) by simp
  have q: "query_row (replies (store_engine columns) ?s') t pk idText =
      Inr (stored_row columns (form(pk \<mapsto> Any_int newId)))"
    unfolding s' using num pos(1,2) at by (simp add: store_engine_def store_replies_def)
  have k: "primary_key_rows (replies (store_engine columns) ?s') t =
      primary_key_rows (replies (store_engine columns) s) t"
    by (simp add: store_engine_def store_replies_def)
  show "primary_key_rows (replies (store_engine columns) ?s') t =
          primary_key_rows (replies (store_engine columns) s) t
        \<and> (\<exists>row. query_row (replies (store_engine columns) ?s') t pk idText = Inr row
              \<and> handsBack row columns (form(pk \<mapsto> Any_int newId)))"
    using k q handsBack_stored_row by blast
qed

text \<open>
  C7, as amended. Let the engine store rows, the request address a known table whose
  primary key is one of its columns and no string column, and the driver report the
  nullability of the columns. Let the body give every column but the primary key a
  value that the type switch of the validator lets pass and that is a string or null
  where the column is a string column, and let the engine accept the INSERT of these
  fields and assign an id. Then the create handler answers 200 with that id, and in
  the state it leaves the get handler, asked with a decimal numeral of the id,
  answers 200 with the record that holds the id under the primary key and, under
  every other column, the submitted value.
\<close>

theorem create_then_get_round_trip:
  fixes eng :: "'s engine"
  assumes "storesRows eng t pk columns"
    and "getTableName exp (r_URL_Path put) = Returns (Inr t)"
    and "getTableName exp (r_URL_Path get) = Returns (Inr t)"
    and "getId (r_URL_Path get) = Returns idText"
    and "Atoi idText = Some newId"
    and "TableColumns exp t = Some columns"
    and "getPrimaryKey (inState eng exp s) t = Inr pk"
    and "\<forall>c \<in> set columns. snd (Nullable c)"
    and "pk \<in> Name ` set columns"
    and "\<forall>c \<in> set columns. Name c = pk \<longrightarrow> \<not> isStringType (DatabaseTypeName c)"
    and "r_Body put = Inr form"
    and "\<forall>c \<in> set columns. Name c \<noteq> pk \<longrightarrow>
           (\<exists>v. form (Name c) = Some v \<and> \<not> typeSwitchFails v c
              \<and> (isStringType (DatabaseTypeName c) \<longrightarrow> v = Any_nil \<or> (\<exists>x. v = Any_string x)))"
    and "exec_insert (replies eng s) t (form |` (Name ` set columns - {pk})) = Inr (Inr newId)"
  shows "handlerCreateItem_on eng exp s put =
           (Returns \<lparr>status = 200, body = CreatedJSON pk newId\<rparr>,
            inserted eng s t (form |` (Name ` set columns - {pk})))
       \<and> handlerGetTableItem (inState eng exp (snd (handlerCreateItem_on eng exp s put))) get =
           Returns \<lparr>status = 200,
             body = RecordJSON ((form |` (Name ` set columns))(pk \<mapsto> Any_int newId))\<rparr>"
proof -
  let ?newForm = "form |` (Name ` set columns - {pk})"
  let ?s' = "inserted eng s t ?newForm"
  let ?stored = "?newForm(pk \<mapsto> Any_int newId)"
  have accepted: "processForm form columns pk createOptions = (?newForm, None)"
    using assms(8,12) by (intro processForm_accepts) blast+
  have cache: "getColumnTypesFromCache (inState eng exp s0) t = Inr columns" for s0
    using assms(6) by (simp add: getColumnTypesFromCache_def inState_def)
  have name: "getTableName (inState eng exp s0) url = getTableName exp url" for s0 url
    by (simp add: inState_def)
  have created: "createItem (inState eng exp s) t ?newForm columns pk = Inr newId"
    using assms(13) by (simp add: createItem_def inState_def)
  have put: "handlerCreateItem_on eng exp s put =
      (Returns \<lparr>status = 200, body = CreatedJSON pk newId\<rparr>, ?s')"
    by (simp add: handlerCreateItem_on_def name assms(2,7,11) cache accepted created)
  from assms(1,5,13) obtain row where
    keys: "primary_key_rows (replies eng ?s') t = primary_key_rows (replies eng s) t"
    and row: "query_row (replies eng ?s') t pk idText = Inr row"
    and hands: "handsBack row columns ?stored"
    unfolding storesRows_def by blast
  have pk': "getPrimaryKey (inState eng exp ?s') t = Inr pk"
    using assms(7) keys by (simp add: getPrimaryKey_def inState_def)
  have vals: "\<forall>c \<in> set columns. \<exists>v. ?stored (Name c) = Some v
      \<and> (isStringType (DatabaseTypeName c) \<longrightarrow> v = Any_nil \<or> (\<exists>x. v = Any_string x))"
  proof
    fix c assume c: "c \<in> set columns"
    show "\<exists>v. ?stored (Name c) = Some v
      \<and> (isStringType (DatabaseTypeName c) \<longrightarrow> v = Any_nil \<or> (\<exists>x. v = Any_string x))"
    proof (cases "Name c = pk")
      case True
      with assms(10) c show ?thesis by simp
    next
      case False
      with assms(12) c obtain v where "form (Name c) = Some v"
        "isStringType (DatabaseTypeName c) \<longrightarrow> v = Any_nil \<or> (\<exists>x. v = Any_string x)"
        by blast
      with False c show ?thesis by (simp add: restrict_map_def)
    qed
  qed
  have q: "query_row (DB (inState eng exp ?s')) t pk idText = Inr row"
    using row by (simp add: inState_def)
  have cols: "TableColumns (inState eng exp ?s') t = Some columns"
    using assms(6) by (simp add: inState_def)
  have item: "getItem (inState eng exp ?s') t pk idText = (?stored |` (Name ` set columns), None)"
    by (rule getItem_handsBack[OF q cols hands vals])
  have rec: "?stored |` (Name ` set columns) = (form |` (Name ` set columns))(pk \<mapsto> Any_int newId)"
  proof (rule ext)
    fix n
    show "(?stored |` (Name ` set columns)) n = ((form |` (Name ` set columns))(pk \<mapsto> Any_int newId)) n"
      using assms(9) by (cases "n = pk") (simp_all add: restrict_map_def)
  qed
  have get: "handlerGetTableItem (inState eng exp ?s') get =
      Returns \<lparr>status = 200,
        body = RecordJSON ((form |` (Name ` set columns))(pk \<mapsto> Any_int newId))\<rparr>"
    by (simp add: handlerGetTableItem_def name assms(3,4) pk' item[unfolded rec])
  show ?thesis using put get by simp
qed

lemmas store_eval_defs = handlerCreateItem_on_def handlerGetTableItem_def getItem_def inState_def
  store_engine_def store_replies_def stored_row_def no_row_def Atoi_def digitValue_def inIntRange_def
  full_form_def bool_form_def

theorem create_then_get_round_trip_witness:
  "storesRows (store_engine users_columns) ''users'' ''id'' users_columns
   \<and> Atoi ''1'' = Some 1
   \<and> full_form ''name'' = Some (Any_string ''Ann'') \<and> full_form ''age'' = Some (Any_float64 1)
   \<and> full_form ''info'' = Some Any_nil
   \<and> handlerCreateItem_on (store_engine users_columns) example_explorer []
        (example_request ''PUT'' ''/users/'' full_form) =
       (Returns \<lparr>status = 200, body = CreatedJSON ''id'' 1\<rparr>,
        [(''users'', [''name'' \<mapsto> Any_string ''Ann'', ''age'' \<mapsto> Any_float64 1, ''info'' \<mapsto> Any_nil])])
   \<and> handlerGetTableItem
        (inState (store_engine users_columns) example_explorer
           [(''users'', [''name'' \<mapsto> Any_string ''Ann'', ''age'' \<mapsto> Any_float64 1, ''info'' \<mapsto> Any_nil])])
        (example_request ''GET'' ''/users/1'' Map.empty) =
       Returns \<lparr>status = 200, body = RecordJSON
         [''id'' \<mapsto> Any_int 1, ''name'' \<mapsto> Any_string ''Ann'', ''age'' \<mapsto> Any_float64 1,
          ''info'' \<mapsto> Any_nil]\<rparr>
   \<and> handlerGetTableItem
        (inState (store_engine users_columns) example_explorer
           (snd (handlerCreateItem_on (store_engine users_columns) example_explorer []
                   (example_request ''PUT'' ''/users/'' full_form))))
        (example_request ''GET'' ''/users/1'' Map.empty) =
       Returns \<lparr>status = 200, body = RecordJSON
         ((full_form |` (Name ` set users_columns))(''id'' \<mapsto> Any_int 1))\<rparr>"
proof -
  let ?eng = "store_engine users_columns"
  let ?put = "example_request ''PUT'' ''/users/'' full_form"
  let ?get = "example_request ''GET'' ''/users/1'' Map.empty"
  have h1: "storesRows ?eng ''users'' ''id'' users_columns" by (rule store_engine_storesRows)
  have h2: "getTableName example_explorer (r_URL_Path ?put) = Returns (Inr ''users'')"
    by (simp add: handler_eval_defs)
  have h3: "getTableName example_explorer (r_URL_Path ?get) = Returns (Inr ''users'')"
    by (simp add: handler_eval_defs)
  have h4: "getId (r_URL_Path ?get) = Returns ''1''" by (simp add: handler_eval_defs)
  have h5: "Atoi ''1'' = Some 1" by (simp add: Atoi_def digitValue_def inIntRange_def)
  have h6: "TableColumns example_explorer ''users'' = Some users_columns"
    by (simp add: example_explorer_def)
  have h7: "getPrimaryKey (inState ?eng example_explorer []) ''users'' = Inr ''id''"
    by (simp add: handler_eval_defs store_eval_defs)
  have h8: "\<forall>c \<in> set users_columns. snd (Nullable c)" by (simp add: eval_defs)
  have h9: "''id'' \<in> Name ` set users_columns" by (simp add: eval_defs)
  have h10: "\<forall>c \<in> set users_columns. Name c = ''id'' \<longrightarrow> \<not> isStringType (DatabaseTypeName c)"
    by (simp add: eval_defs)
  have h11: "r_Body ?put = Inr full_form" by (simp add: example_request_def)
  have h12: "\<forall>c \<in> set users_columns. Name c \<noteq> ''id'' \<longrightarrow>
           (\<exists>v. full_form (Name c) = Some v \<and> \<not> typeSwitchFails v c
              \<and> (isStringType (DatabaseTypeName c) \<longrightarrow> v = Any_nil \<or> (\<exists>x. v = Any_string x)))"
    by (simp add: eval_defs full_form_def)
  have h13: "exec_insert (replies ?eng []) ''users''
      (full_form |` (Name ` set users_columns - {''id''})) = Inr (Inr 1)"
    by (simp add: store_engine_def store_replies_def)
  have e: "full_form ''name'' = Some (Any_string ''Ann'') \<and> full_form ''age'' = Some (Any_float64 1)
      \<and> full_form ''info'' = Some Any_nil"
    by (simp add: full_form_def)
  have put: "handlerCreateItem_on ?eng example_explorer [] ?put =
       (Returns \<lparr>status = 200, body = CreatedJSON ''id'' 1\<rparr>,
        [(''users'', [''name'' \<mapsto> Any_string ''Ann'', ''age'' \<mapsto> Any_float64 1, ''info'' \<mapsto> Any_nil])])"
    by (simp add: eval_defs handler_eval_defs store_eval_defs)
  have get: "handlerGetTableItem
        (inState ?eng example_explorer
           [(''users'', [''name'' \<mapsto> Any_string ''Ann'', ''age'' \<mapsto> Any_float64 1, ''info'' \<mapsto> Any_nil])])
        ?get =
       Returns \<lparr>status = 200, body = RecordJSON
         [''id'' \<mapsto> Any_int 1, ''name'' \<mapsto> Any_string ''Ann'', ''age'' \<mapsto> Any_float64 1,
          ''info'' \<mapsto> Any_nil]\<rparr>"
    by (simp add: eval_defs handler_eval_defs store_eval_defs)
  from create_then_get_round_trip[OF h1 h2 h3 h4 h5 h6 h7 h8 h9 h10 h11 h12 h13] h1 h5 e put get
  show ?thesis by blast
qed

text \<open>
  C7, as stated, fails. A bool passes the type switch for the string column \<open>name\<close>,
  the engine stores the row, and the record of the get shows a string under \<open>name\<close>,
  not the bool submitted: a string column is decoded to a string or null, whatever
  the engine holds (\<open>get_string_column_is_string_or_null\<close>). And a JSON number for
  the column \<open>qty\<close>, whose type the engine names \<open>INT\<close>, is refused with 400 before
  any row is inserted: the validator takes only the type name \<open>NUMBER\<close> as numeric.
\<close>

theorem create_then_get_counterexample:
  "storesRows (store_engine users_columns) ''users'' ''id'' users_columns
   \<and> bool_form ''name'' = Some (Any_bool True)
   \<and> isStringType (DatabaseTypeName name_column)
   \<and> \<not> typeSwitchFails (Any_bool True) name_column
   \<and> handlerCreateItem_on (store_engine users_columns) example_explorer []
        (example_request ''PUT'' ''/users/'' bool_form) =
       (Returns \<lparr>status = 200, body = CreatedJSON ''id'' 1\<rparr>,
        [(''users'', [''name'' \<mapsto> Any_bool True, ''age'' \<mapsto> Any_float64 1, ''info'' \<mapsto> Any_nil])])
   \<and> handlerGetTableItem
        (inState (store_engine users_columns) example_explorer
           [(''users'', [''name'' \<mapsto> Any_bool True, ''age'' \<mapsto> Any_float64 1, ''info'' \<mapsto> Any_nil])])
        (example_request ''GET'' ''/users/1'' Map.empty) =
       Returns \<lparr>status = 200, body = RecordJSON
         [''id'' \<mapsto> Any_int 1, ''name'' \<mapsto> Any_string ''true'', ''age'' \<mapsto> Any_float64 1,
          ''info'' \<mapsto> Any_nil]\<rparr>
   \<and> Some (Any_string ''true'') \<noteq> bool_form ''name''
   \<and> qty_form ''qty'' = Some (Any_float64 5)
   \<and> DatabaseTypeName qty_column = ''INT''
   \<and> handlerCreateItem stock_explorer (example_request ''PUT'' ''/stock/'' qty_form) =
       Returns \<lparr>status = 400, body = ErrorJSON ''field qty have invalid type''\<rparr>"
proof -
  have "storesRows (store_engine users_columns) ''users'' ''id'' users_columns"
    by (rule store_engine_storesRows)
  moreover have "handlerCreateItem stock_explorer (example_request ''PUT'' ''/stock/'' qty_form) =
       Returns \<lparr>status = 400, body = ErrorJSON ''field qty have invalid type''\<rparr>"
    by (simp add: eval_defs handlerCreateItem_def getTableName_def index_def isValidTableName_def
        getColumnTypesFromCache_def getPrimaryKey_def example_db_def example_request_def
        processForm_def stock_explorer_def qty_form_def qty_column_def)
  ultimately show ?thesis
    by (simp add: eval_defs handler_eval_defs store_eval_defs qty_form_def qty_column_def)
qed

end
